theory Spec2Isabelle
  imports Complex_Main "HOL-Library.Word" "HOL-Library.Sublist"
begin

unbundle bit_operations_syntax

section \<open>The plan engine task (Plan::Engine::Task)\<close>

text \<open>
  A shallow embedding of the plan engine task. The task is a single-threaded
  object whose handlers (\<open>consume\<close> overloads and the body of the main loop)
  mutate its members and dispatch messages to the bus. Here every handler is a
  function from the task's state to the new state; the messages a handler
  dispatches are appended to the field \<open>bus\<close>, oldest first.

  Times are C++ \<open>double\<close>s in the source and real numbers here. The source's
  arithmetic on them rounds. The sum that gives the reply deadline and the difference
  between the deadline and the current time are only compared with 0, and rounding
  keeps their sign, so they are computed exactly here. The time since the last
  vehicle state is compared with the timeout itself, where rounding can decide, so
  that difference is rounded (\<open>to_double\<close> below). The clock is
  read once for each handler call (the record \<open>clock\<close>), so every
  \<open>Clock::get()\<close> of one call returns the same value. Logging calls
  (\<open>inf\<close>, \<open>war\<close>, \<open>err\<close>, \<open>debug\<close>) have no effect on the
  task and are left out, and with them the \<open>print\<close> parameters that only
  select them.
\<close>

subsection \<open>Messages\<close>

datatype pcs_state_enum = PCS_BLOCKED | PCS_READY | PCS_INITIALIZING | PCS_EXECUTING

datatype last_outcome_enum = LPO_NONE | LPO_SUCCESS | LPO_FAILURE

record plan_control_state =
  pcs_timestamp :: real
  pcs_state :: pcs_state_enum
  pcs_plan_id :: string
  pcs_plan_eta :: int
  pcs_plan_progress :: real
  pcs_man_id :: string
  pcs_man_type :: "16 word"
  pcs_man_eta :: int
  pcs_last_outcome :: last_outcome_enum

text \<open>
  A maneuver message. Every maneuver carries \<open>plan_ref\<close> and \<open>memento\<close>
  (the task writes both through an \<open>IMC::Maneuver\<close> pointer); the rest is the
  payload of its kind. The task builds two kinds itself, for calibration.
\<close>

datatype z_units_enum = Z_NONE | Z_DEPTH | Z_ALTITUDE | Z_HEIGHT

datatype speed_units_enum = SUNITS_METERS_PS | SUNITS_RPM | SUNITS_PERCENTAGE

datatype man_body =
    StationKeeping (sk_lat: real) (sk_lon: real) (sk_z: real) (sk_z_units: z_units_enum)
                   (sk_radius: real) (sk_speed: real) (sk_speed_units: speed_units_enum)
  | IdleManeuver (idle_duration: "16 word")
  | OtherManeuver (om_name: string) (om_id: "16 word") (om_fields: string)

record maneuver =
  man_plan_ref :: "32 word"
  man_memento :: string
  man_body :: man_body

record plan_maneuver =
  pm_maneuver_id :: string
  pm_data :: "maneuver option"

text \<open>The list of maneuvers of a plan may hold null entries, which the task skips.\<close>

record plan_specification =
  spec_source_entity :: "8 word"
  spec_plan_id :: string
  spec_description :: string
  spec_vnamespace :: string
  spec_start_man_id :: string
  spec_maneuvers :: "plan_maneuver option list"
  spec_transitions :: "(string \<times> string \<times> string) list"

record plan_memento =
  pmem_id :: string
  pmem_plan_id :: string
  pmem_maneuver_id :: string
  pmem_memento :: string

text \<open>
  The Memento message of the vehicle is declared outside the source at hand. The task
  reads its \<open>id\<close>; the memento handler reads the plan reference, and the
  maneuver and the opaque payload it hands over to the PlanMemento.
\<close>

record memento =
  mem_id :: string
  mem_plan_ref :: "32 word"
  mem_maneuver_id :: string
  mem_memento :: string

record plan_statistics =
  ps_plan_id :: string
  ps_properties :: string
  ps_durations :: string
  ps_distances :: string
  ps_fuel :: string

datatype message =
    PlanSpecificationMsg plan_specification
  | PlanMementoMsg plan_memento
  | PlanStatisticsMsg plan_statistics
  | MementoMsg memento
  | ManeuverMsg maneuver

datatype pc_type_enum = PC_REQUEST | PC_SUCCESS | PC_FAILURE | PC_IN_PROGRESS

datatype pc_op_enum = PC_START | PC_STOP | PC_LOAD | PC_GET | PC_OP_OTHER "8 word"

record plan_control =
  pc_source :: "16 word"
  pc_source_entity :: "8 word"
  pc_destination :: "16 word"
  pc_destination_entity :: "8 word"
  pc_type :: pc_type_enum
  pc_op :: pc_op_enum
  pc_request_id :: "16 word"
  pc_plan_id :: string
  pc_flags :: "16 word"
  pc_arg :: "message option"
  pc_info :: string

text \<open>The flag of a request that asks for calibration: bit 0, as IMC defines it.\<close>

definition FLG_CALIBRATE :: "16 word" where
  "FLG_CALIBRATE = 1"

datatype vc_type_enum = VC_REQUEST | VC_SUCCESS | VC_IN_PROGRESS | VC_FAILURE

datatype vc_command_enum =
  VC_EXEC_MANEUVER | VC_STOP_MANEUVER | VC_START_CALIBRATION | VC_STOP_CALIBRATION

record vehicle_command =
  vc_destination :: "16 word"
  vc_destination_entity :: "8 word"
  vc_type :: vc_type_enum
  vc_request_id :: "16 word"
  vc_command :: vc_command_enum
  vc_maneuver :: "maneuver option"
  vc_calib_time :: "16 word"
  vc_info :: string

datatype vs_op_mode_enum =
  VS_SERVICE | VS_CALIBRATION | VS_ERROR | VS_MANEUVER | VS_EXTERNAL | VS_BOOT

record vehicle_state =
  vs_op_mode :: vs_op_mode_enum
  vs_error_ents :: string
  vs_last_error :: string
  vs_last_error_time :: real
  vs_flags :: "8 word"
  vs_maneuver_eta :: "16 word"

text \<open>The flag of a vehicle state that says the maneuver is done: bit 0, as IMC defines it.\<close>

definition VFLG_MANEUVER_DONE :: "8 word" where
  "VFLG_MANEUVER_DONE = 1"

record estimated_state =
  es_source :: "16 word"
  es_lat :: real
  es_lon :: real
  es_height :: real
  es_x :: real
  es_y :: real
  es_z :: real

datatype mcs_state_enum = MCS_EXECUTING | MCS_DONE | MCS_ERROR | MCS_STOPPED

record maneuver_control_state =
  mcs_state :: mcs_state_enum
  mcs_eta :: "16 word"
  mcs_info :: string

datatype pop_enum = POP_PWR_DOWN | POP_PWR_DOWN_IP | POP_PWR_DOWN_ABORTED | POP_OTHER

record power_operation =
  po_destination :: "16 word"
  po_op :: pop_enum

record register_maneuver =
  rm_mid :: "16 word"

record entity_info =
  ei_id :: "8 word"
  ei_label :: string
  ei_component :: string

datatype eas_state_enum = EAS_INACTIVE | EAS_ACTIVE | EAS_ACT_IP | EAS_ACT_DONE | EAS_ACT_FAIL

record entity_activation_state =
  eas_source_entity :: "8 word"
  eas_state :: eas_state_enum
  eas_error :: string

record fuel_level =
  fl_value :: real
  fl_confidence :: real

record plan_db =
  pdb_request_id :: "16 word"
  pdb_plan_id :: string
  pdb_arg :: "message option"

datatype lc_op_enum = COP_REQUEST_START | COP_STARTED | COP_REQUEST_STOP | COP_STOPPED

record logging_control =
  lc_op :: lc_op_enum
  lc_name :: string

datatype db_kind = DBDT_PLAN | DBDT_MEMENTO

datatype esta_enum = ESTA_BOOT | ESTA_NORMAL | ESTA_FAULT | ESTA_ERROR | ESTA_FAILURE

datatype status_code = CODE_INIT | CODE_ACTIVE | CODE_DB_ERROR | CODE_POWER_DOWN

text \<open>What the task dispatches to the bus.\<close>

datatype out_msg =
    OutPlanControlState plan_control_state
  | OutPlanControl plan_control
  | OutVehicleCommand vehicle_command
  | OutLoggingControl logging_control
  | OutPlanSpecification plan_specification

text \<open>
  Name and numeric identifier of a maneuver, as \<open>getName\<close> and \<open>getId\<close> give
  them; 461 and 454 are the identifiers IMC gives to StationKeeping and IdleManeuver.
\<close>

fun man_getName :: "maneuver \<Rightarrow> string" where
  "man_getName m =
     (case man_body m of
        StationKeeping _ _ _ _ _ _ _ \<Rightarrow> ''StationKeeping''
      | IdleManeuver _ \<Rightarrow> ''IdleManeuver''
      | OtherManeuver n _ _ \<Rightarrow> n)"

fun man_getId :: "maneuver \<Rightarrow> 16 word" where
  "man_getId m =
     (case man_body m of
        StationKeeping _ _ _ _ _ _ _ \<Rightarrow> 461
      | IdleManeuver _ \<Rightarrow> 454
      | OtherManeuver _ i _ \<Rightarrow> i)"

text \<open>The name of any message, as the virtual \<open>getName\<close> gives it.\<close>

fun msg_getName :: "message \<Rightarrow> string" where
  "msg_getName (PlanSpecificationMsg _) = ''PlanSpecification''"
| "msg_getName (PlanMementoMsg _) = ''PlanMemento''"
| "msg_getName (PlanStatisticsMsg _) = ''PlanStatistics''"
| "msg_getName (MementoMsg _) = ''Memento''"
| "msg_getName (ManeuverMsg m) = man_getName m"

text \<open>\<open>PlanSpecification::clear\<close> resets the fields of the message, not its header.\<close>

definition spec_clear :: "plan_specification \<Rightarrow> plan_specification" where
  "spec_clear sp =
     sp\<lparr>spec_plan_id := [], spec_description := [], spec_vnamespace := [],
        spec_start_man_id := [], spec_maneuvers := [], spec_transitions := []\<rparr>"

subsection \<open>Collaborators outside the source at hand\<close>

text \<open>
  The classes \<open>Plan\<close> and \<open>DataBaseInteraction\<close>, the entity table of the task
  framework and the coordinate library are not part of the source at hand. The task
  only calls them, so they are parameters of the model: a plan object is a value
  of type \<open>'p\<close>, the database gateway a value of type \<open>'d\<close>, and a method that
  changes its object returns the new one. A plan operation that reads the
  specification (the plan object keeps a pointer to \<open>m_spec\<close>) takes it as an
  argument; the maneuver it returns is a value of its own. A database search gets
  the current \<open>info\<close> text and returns the new one with what it found. What
  these collaborators dispatch to the bus on their own is not part of the model.

  Two more parameters stand for what the language leaves to the machine.
  \<open>to_double\<close> rounds a real number to the double that the source's arithmetic
  gives. \<open>as_maneuver\<close> is what the task reads through a maneuver pointer that
  an unchecked cast has made of a message that is no maneuver.
\<close>

record ('p, 'd) collab =
  p_parse :: "'p \<Rightarrow> plan_specification \<Rightarrow> 16 word set \<Rightarrow> (string \<times> entity_info) list
              \<Rightarrow> bool \<Rightarrow> estimated_state \<Rightarrow> 'p \<times> (string + plan_statistics)"
  p_clear :: "'p \<Rightarrow> 'p"
  p_loadStartManeuver :: "'p \<Rightarrow> plan_specification \<Rightarrow> plan_maneuver option \<times> 'p"
  p_loadNextManeuver :: "'p \<Rightarrow> plan_specification \<Rightarrow> plan_maneuver option \<times> 'p"
  p_isDone :: "'p \<Rightarrow> bool"
  p_maneuverStarted :: "'p \<Rightarrow> string \<Rightarrow> 'p"
  p_maneuverDone :: "'p \<Rightarrow> 'p"
  p_planStarted :: "'p \<Rightarrow> 'p"
  p_planStopped :: "'p \<Rightarrow> 'p"
  p_updateCalibration :: "'p \<Rightarrow> vehicle_state \<Rightarrow> 'p"
  p_isCalibrationDone :: "'p \<Rightarrow> bool"
  p_hasCalibrationFailed :: "'p \<Rightarrow> bool"
  p_getCalibrationInfo :: "'p \<Rightarrow> string"
  p_calibrationStarted :: "'p \<Rightarrow> 'p"
  p_getEstimatedCalibrationTime :: "'p \<Rightarrow> real"
  p_onEntityActivationState :: "'p \<Rightarrow> string \<Rightarrow> entity_activation_state \<Rightarrow> bool \<times> 'p"
  p_onFuelLevel :: "'p \<Rightarrow> fuel_level \<Rightarrow> 'p"
  p_updateProgress :: "'p \<Rightarrow> maneuver_control_state \<Rightarrow> real \<times> 'p"
  p_getETA :: "'p \<Rightarrow> real"
  p_getCurrentId :: "'p \<Rightarrow> string"
  db_sendToDB :: "'d \<Rightarrow> db_kind \<Rightarrow> string \<Rightarrow> message \<Rightarrow> 'd"
  db_searchPlan :: "'d \<Rightarrow> string \<Rightarrow> string \<Rightarrow> plan_specification option \<times> string"
  db_searchMemento :: "'d \<Rightarrow> string \<Rightarrow> string \<Rightarrow> plan_memento option \<times> string"
  db_onPlanDB :: "'d \<Rightarrow> plan_db \<Rightarrow> bool \<times> 'd"
  db_open :: "'d \<Rightarrow> bool \<times> 'd"
  db_close :: "'d \<Rightarrow> 'd"
  resolveEntity :: "nat \<Rightarrow> string option"
  toWGS84 :: "estimated_state \<Rightarrow> real \<times> real"
  to_double :: "real \<Rightarrow> real"
  as_maneuver :: "message \<Rightarrow> maneuver"

text \<open>The two clocks a handler reads: \<open>Clock::get\<close> and \<open>Clock::getSinceEpoch\<close>.\<close>

record clock =
  clk_get :: real
  clk_epoch :: real

subsection \<open>The memento handler\<close>

text \<open>
  Modelled from the spec: the class \<open>MementoHandler\<close> is missing from the source at
  hand. The handler keeps a map from the plan reference to the plan specification
  that was started under it. For a Memento message it looks the plan reference up:
  an unknown reference discards the message, a known one gives a PlanMemento that
  names the plan, the maneuver and the opaque payload. The bound of the map is not
  stated anywhere and is not modelled.
\<close>

type_synonym memento_handler = "(32 word \<times> plan_specification) list"

definition mh_add :: "32 word \<Rightarrow> plan_specification \<Rightarrow> memento_handler \<Rightarrow> memento_handler" where
  "mh_add plan_ref sp mh = (plan_ref, sp) # mh"

definition mh_processMemento :: "memento_handler \<Rightarrow> memento \<Rightarrow> plan_memento option" where
  "mh_processMemento mh msg =
     (case map_of mh (mem_plan_ref msg) of
        None \<Rightarrow> None
      | Some sp \<Rightarrow>
          Some \<lparr>pmem_id = mem_id msg, pmem_plan_id = spec_plan_id sp,
                pmem_maneuver_id = mem_maneuver_id msg, pmem_memento = mem_memento msg\<rparr>)"

subsection \<open>The task\<close>

record arguments =
  arg_progress :: bool
  arg_fpredict :: bool
  arg_speriod :: real
  arg_calibration_time :: "16 word"
  arg_do_calib :: bool
  arg_actfail_abort :: bool
  arg_sk_calib :: bool
  arg_sk_radius :: real
  arg_sk_rpm :: real
  arg_label_imu :: string

text \<open>
  The members of the task, and of the framework's base class the system and entity
  identifiers and the entity state. The model covers the task between the acquisition
  and the release of its resources, where \<open>m_plan\<close> and \<open>m_db\<close> are not null,
  so the tests of \<open>m_plan\<close> against null are left out. The members \<open>m_sm\<close> and
  \<open>m_next_sm\<close> are not used by any handler, and \<open>m_report_timer\<close> is replaced
  by an input of the main loop; they are left out.
\<close>

record ('p, 'd) task =
  m_plan :: 'p
  m_pcs :: plan_control_state
  m_reply :: plan_control
  m_last_event :: string
  m_vreq_ctr :: "16 word"
  m_vc_reply_deadline :: real
  m_last_vstate :: real
  m_vc :: vehicle_command
  m_spec :: plan_specification
  m_supported_maneuvers :: "16 word set"
  m_db :: 'd
  m_lc :: logging_control
  m_state :: estimated_state
  m_mcs :: maneuver_control_state
  m_cinfo :: "(string \<times> entity_info) list"
  m_eid_imu :: nat
  m_imu_enabled :: bool
  m_requests :: "plan_control list"
  m_plan_ref :: "32 word"
  m_mh :: memento_handler
  m_args :: arguments
  system_id :: "16 word"
  entity_id :: "8 word"
  entity_state :: esta_enum
  entity_code :: status_code
  bus :: "out_msg list"

definition c_vc_reply_timeout :: real where
  "c_vc_reply_timeout = 2.5"

definition c_vs_timeout :: real where
  "c_vs_timeout = 2.5"

definition dispatch :: "out_msg \<Rightarrow> ('p, 'd) task \<Rightarrow> ('p, 'd) task" where
  "dispatch m s = s\<lparr>bus := bus s @ [m]\<rparr>"

definition setEntityState :: "esta_enum \<Rightarrow> status_code \<Rightarrow> ('p, 'd) task \<Rightarrow> ('p, 'd) task" where
  "setEntityState e c s = s\<lparr>entity_state := e, entity_code := c\<rparr>"

definition pendingReply :: "('p, 'd) task \<Rightarrow> bool" where
  "pendingReply s = (m_vc_reply_deadline s \<ge> 0)"

definition blockedMode :: "('p, 'd) task \<Rightarrow> bool" where
  "blockedMode s = (pcs_state (m_pcs s) = PCS_BLOCKED)"

definition readyMode :: "('p, 'd) task \<Rightarrow> bool" where
  "readyMode s = (pcs_state (m_pcs s) = PCS_READY)"

definition initMode :: "('p, 'd) task \<Rightarrow> bool" where
  "initMode s = (pcs_state (m_pcs s) = PCS_INITIALIZING)"

definition execMode :: "('p, 'd) task \<Rightarrow> bool" where
  "execMode s = (pcs_state (m_pcs s) = PCS_EXECUTING)"

definition changeLog :: "string \<Rightarrow> ('p, 'd) task \<Rightarrow> ('p, 'd) task" where
  "changeLog name s =
     (let s1 = s\<lparr>m_lc := (m_lc s)\<lparr>lc_op := COP_REQUEST_START, lc_name := name\<rparr>\<rparr>
      in dispatch (OutLoggingControl (m_lc s1)) s1)"

text \<open>The cast of a floating-point value to an integer type truncates towards zero.\<close>

definition trunc :: "real \<Rightarrow> int" where
  "trunc x = (if x \<ge> 0 then \<lfloor>x\<rfloor> else \<lceil>x\<rceil>)"

definition vehicleRequest ::
  "('p, 'd) collab \<Rightarrow> clock \<Rightarrow> vc_command_enum \<Rightarrow> maneuver option \<Rightarrow> ('p, 'd) task \<Rightarrow> ('p, 'd) task" where
  "vehicleRequest X c command arg s =
     (let s1 = s\<lparr>m_vreq_ctr := m_vreq_ctr s + 1\<rparr>;
          s2 = s1\<lparr>m_vc := (m_vc s1)\<lparr>vc_type := VC_REQUEST, vc_request_id := m_vreq_ctr s1,
                                     vc_command := command\<rparr>\<rparr>;
          s3 = (case arg of
                  Some m \<Rightarrow> s2\<lparr>m_vc := (m_vc s2)\<lparr>vc_maneuver := Some m\<rparr>\<rparr>
                | None \<Rightarrow> s2);
          s4 = (if command = VC_START_CALIBRATION
                then (let s' = s3\<lparr>m_plan := p_calibrationStarted X (m_plan s3)\<rparr>
                      in s'\<lparr>m_vc := (m_vc s')\<lparr>vc_calib_time :=
                              word_of_int (trunc (p_getEstimatedCalibrationTime X (m_plan s')))\<rparr>\<rparr>)
                else s3\<lparr>m_vc := (m_vc s3)\<lparr>vc_calib_time := 0\<rparr>\<rparr>);
          s5 = dispatch (OutVehicleCommand (m_vc s4)) s4;
          s6 = (case arg of
                  Some m \<Rightarrow> s5\<lparr>m_vc := (m_vc s5)\<lparr>vc_maneuver := None\<rparr>\<rparr>
                | None \<Rightarrow> s5)
      in s6\<lparr>m_vc_reply_deadline := clk_get c + c_vc_reply_timeout\<rparr>)"

definition answer :: "pc_type_enum \<Rightarrow> string \<Rightarrow> ('p, 'd) task \<Rightarrow> ('p, 'd) task" where
  "answer ty desc s =
     (let s1 = s\<lparr>m_reply := (m_reply s)\<lparr>pc_type := ty, pc_info := desc\<rparr>\<rparr>
      in dispatch (OutPlanControl (m_reply s1)) s1)"

definition onFailure :: "string \<Rightarrow> ('p, 'd) task \<Rightarrow> ('p, 'd) task" where
  "onFailure errmsg s =
     answer PC_FAILURE errmsg
       (s\<lparr>m_pcs := (m_pcs s)\<lparr>pcs_last_outcome := LPO_FAILURE, pcs_plan_progress := - 1,
                               pcs_plan_eta := 0\<rparr>\<rparr>)"

definition onSuccess :: "string \<Rightarrow> ('p, 'd) task \<Rightarrow> ('p, 'd) task" where
  "onSuccess msg s =
     answer PC_SUCCESS msg
       (s\<lparr>m_pcs := (m_pcs s)\<lparr>pcs_plan_progress := - 1, pcs_plan_eta := 0\<rparr>\<rparr>)"

definition changeMode ::
  "('p, 'd) collab \<Rightarrow> clock \<Rightarrow> pcs_state_enum \<Rightarrow> string \<Rightarrow> string \<Rightarrow> maneuver option
   \<Rightarrow> ('p, 'd) task \<Rightarrow> ('p, 'd) task" where
  "changeMode X c st event_desc nid maneuver s =
     (let now = clk_epoch c;
          s1 = s\<lparr>m_last_event := event_desc\<rparr>;
          s2 = (if st \<noteq> pcs_state (m_pcs s1)
                then (let was_in_plan = (initMode s1 \<or> execMode s1);
                          s' = s1\<lparr>m_pcs := (m_pcs s1)\<lparr>pcs_state := st\<rparr>\<rparr>;
                          is_in_plan = (initMode s' \<or> execMode s')
                      in if was_in_plan \<and> \<not> is_in_plan
                         then changeLog [] (s'\<lparr>m_plan := p_planStopped X (m_plan s')\<rparr>)
                         else s')
                else s1);
          s3 = (case maneuver of
                  Some m \<Rightarrow> s2\<lparr>m_pcs := (m_pcs s2)\<lparr>pcs_man_id := nid, pcs_man_type := man_getId m\<rparr>\<rparr>
                | None \<Rightarrow> s2\<lparr>m_pcs := (m_pcs s2)\<lparr>pcs_man_id := [], pcs_man_type := 0xFFFF\<rparr>\<rparr>);
          s4 = s3\<lparr>m_pcs := (m_pcs s3)\<lparr>pcs_timestamp := now\<rparr>\<rparr>
      in dispatch (OutPlanControlState (m_pcs s4)) s4)"

text \<open>The overload of \<open>changeMode\<close> without a maneuver.\<close>

definition changeMode0 ::
  "('p, 'd) collab \<Rightarrow> clock \<Rightarrow> pcs_state_enum \<Rightarrow> string \<Rightarrow> ('p, 'd) task \<Rightarrow> ('p, 'd) task" where
  "changeMode0 X c st event_desc s = changeMode X c st event_desc [] None s"

definition startManeuver ::
  "('p, 'd) collab \<Rightarrow> clock \<Rightarrow> plan_maneuver option \<Rightarrow> ('p, 'd) task \<Rightarrow> ('p, 'd) task" where
  "startManeuver X c pman s =
     (case pman of
        None \<Rightarrow>
          changeMode0 X c PCS_READY (p_getCurrentId X (m_plan s) @ '': invalid maneuver ID'') s
      | Some pm \<Rightarrow>
          (let man = map_option (\<lambda>m. m\<lparr>man_plan_ref := m_plan_ref s\<rparr>) (pm_data pm);
               s1 = vehicleRequest X c VC_EXEC_MANEUVER man s;
               s2 = changeMode X c PCS_EXECUTING (pm_maneuver_id pm @ '': executing maneuver'')
                      (pm_maneuver_id pm) man s1
           in s2\<lparr>m_plan := p_maneuverStarted X (m_plan s2) (pm_maneuver_id pm)\<rparr>))"

subsection \<open>Loading a plan\<close>

definition parsePlan ::
  "('p, 'd) collab \<Rightarrow> bool \<Rightarrow> ('p, 'd) task \<Rightarrow> (bool \<times> plan_statistics option) \<times> ('p, 'd) task" where
  "parsePlan X plan_startup s =
     (case p_parse X (m_plan s) (m_spec s) (m_supported_maneuvers s) (m_cinfo s)
             (m_imu_enabled s) (m_state s) of
        (p', Inl what) \<Rightarrow>
          (let s1 = onFailure what (s\<lparr>m_plan := p'\<rparr>)
           in ((False, None), s1\<lparr>m_plan := p_clear X (m_plan s1)\<rparr>))
      | (p', Inr ps) \<Rightarrow>
          (let s1 = s\<lparr>m_plan := p'\<rparr>;
               s2 = (if \<not> plan_startup then s1\<lparr>m_plan := p_clear X (m_plan s1)\<rparr> else s1)
           in ((True, Some ps), s2)))"

text \<open>
  The handlers of the argument of a request return whether they got a specification,
  the text \<open>info\<close> and the task.
\<close>

definition handleArgSpecification ::
  "('p, 'd) collab \<Rightarrow> plan_specification \<Rightarrow> string \<Rightarrow> ('p, 'd) task \<Rightarrow> bool \<times> string \<times> ('p, 'd) task" where
  "handleArgSpecification X given_plan info s =
     (let s1 = s\<lparr>m_spec := given_plan\<rparr>;
          s2 = s1\<lparr>m_spec := (m_spec s1)\<lparr>spec_source_entity := entity_id s1\<rparr>\<rparr>;
          s3 = s2\<lparr>m_db := db_sendToDB X (m_db s2) DBDT_PLAN (spec_plan_id (m_spec s2))
                              (PlanSpecificationMsg (m_spec s2))\<rparr>
      in (True, info, s3))"

text \<open>
  The loop of \<open>handleArgMemento\<close> over the maneuvers of the specification: the first
  maneuver with the memento's maneuver identifier gets the memento's bytes. The result
  is the error text or the new list.
\<close>

fun insertMemento :: "plan_memento \<Rightarrow> plan_maneuver option list \<Rightarrow> string + plan_maneuver option list" where
  "insertMemento pmem [] = Inl (''could not find resume maneuver: '' @ pmem_maneuver_id pmem)"
| "insertMemento pmem (None # ms) = map_sum id (\<lambda>r. None # r) (insertMemento pmem ms)"
| "insertMemento pmem (Some pm # ms) =
     (if pm_maneuver_id pm = pmem_maneuver_id pmem
      then (case pm_data pm of
              None \<Rightarrow> Inl (pm_maneuver_id pm @ ''actual maneuver not specified'')
            | Some m \<Rightarrow> Inr (Some (pm\<lparr>pm_data := Some (m\<lparr>man_memento := pmem_memento pmem\<rparr>)\<rparr>) # ms))
      else map_sum id (\<lambda>r. Some pm # r) (insertMemento pmem ms))"

definition handleArgMemento ::
  "('p, 'd) collab \<Rightarrow> plan_memento \<Rightarrow> string \<Rightarrow> ('p, 'd) task \<Rightarrow> bool \<times> string \<times> ('p, 'd) task" where
  "handleArgMemento X pmem info s =
     (let s1 = s\<lparr>m_spec := spec_clear (m_spec s)\<rparr>
      in case db_searchPlan X (m_db s1) (pmem_plan_id pmem) info of
           (None, info1) \<Rightarrow> (False, info1, onFailure info1 s1)
         | (Some found, info1) \<Rightarrow>
             (let s2 = s1\<lparr>m_spec := found\<rparr>;
                  s3 = s2\<lparr>m_spec := (m_spec s2)\<lparr>spec_source_entity := entity_id s2\<rparr>\<rparr>;
                  s4 = s3\<lparr>m_spec := (m_spec s3)\<lparr>spec_start_man_id := pmem_maneuver_id pmem\<rparr>\<rparr>
              in case insertMemento pmem (spec_maneuvers (m_spec s4)) of
                   Inl info2 \<Rightarrow> (False, info2, s4)
                 | Inr ms \<Rightarrow>
                     (let s5 = s4\<lparr>m_spec := (m_spec s4)\<lparr>spec_maneuvers := ms\<rparr>\<rparr>;
                          s6 = s5\<lparr>m_db := db_sendToDB X (m_db s5) DBDT_MEMENTO (pmem_id pmem)
                                              (PlanMementoMsg pmem)\<rparr>
                      in (True, info1, s6))))"

text \<open>
  A quick plan out of a single maneuver. The source casts the argument to a maneuver
  without a check, so every message that is not null gives a quick plan, named after
  the message.
\<close>

definition handleQuickPlan ::
  "('p, 'd) collab \<Rightarrow> string \<Rightarrow> message option \<Rightarrow> string \<Rightarrow> ('p, 'd) task
   \<Rightarrow> bool \<times> string \<times> ('p, 'd) task" where
  "handleQuickPlan X ident arg info s =
     (case arg of
        None \<Rightarrow> (False, ''undefined maneuver or plan'', s)
      | Some a \<Rightarrow>
          (let man = (case a of ManeuverMsg m \<Rightarrow> m | _ \<Rightarrow> as_maneuver X a);
               spec_man = \<lparr>pm_maneuver_id = msg_getName a, pm_data = Some man\<rparr>;
               s1 = s\<lparr>m_spec := spec_clear (m_spec s)\<rparr>;
               s2 = s1\<lparr>m_spec := (m_spec s1)\<lparr>spec_plan_id := ident\<rparr>\<rparr>;
               s3 = s2\<lparr>m_spec := (m_spec s2)\<lparr>spec_start_man_id := msg_getName a\<rparr>\<rparr>;
               s4 = s3\<lparr>m_spec := (m_spec s3)\<lparr>spec_maneuvers := spec_maneuvers (m_spec s3) @ [Some spec_man]\<rparr>\<rparr>;
               s5 = s4\<lparr>m_db := db_sendToDB X (m_db s4) DBDT_PLAN (spec_plan_id (m_spec s4))
                                   (PlanSpecificationMsg (m_spec s4))\<rparr>
           in (True, info, s5)))"

text \<open>
  \<open>parseArg\<close> calls itself once, with the memento it found in the database; that call
  takes the branch of the memento.
\<close>

definition parseArg ::
  "('p, 'd) collab \<Rightarrow> string \<Rightarrow> message option \<Rightarrow> string \<Rightarrow> ('p, 'd) task \<Rightarrow> bool \<times> string \<times> ('p, 'd) task" where
  "parseArg X ident arg info s =
     (case arg of
        Some (PlanSpecificationMsg given_plan) \<Rightarrow> handleArgSpecification X given_plan info s
      | Some (PlanMementoMsg pmem) \<Rightarrow> handleArgMemento X pmem info s
      | Some a \<Rightarrow> handleQuickPlan X ident (Some a) info s
      | None \<Rightarrow>
          (let s1 = s\<lparr>m_spec := spec_clear (m_spec s)\<rparr>
           in case db_searchPlan X (m_db s1) ident info of
                (Some found, info1) \<Rightarrow> (True, info1, s1\<lparr>m_spec := found\<rparr>)
              | (None, info1) \<Rightarrow>
                  (case db_searchMemento X (m_db s1) ident info1 of
                     (Some pmem, info2) \<Rightarrow> handleArgMemento X pmem info2 s1
                   | (None, info2) \<Rightarrow> (False, info2, onFailure info2 s1))))"

definition loadPlan ::
  "('p, 'd) collab \<Rightarrow> clock \<Rightarrow> string \<Rightarrow> message option \<Rightarrow> bool \<Rightarrow> ('p, 'd) task \<Rightarrow> bool \<times> ('p, 'd) task" where
  "loadPlan X c plan_id arg plan_startup s =
     (if (initMode s \<and> \<not> plan_startup) \<or> execMode s
      then (False, onFailure ''cannot load plan now'' s)
      else
        (case parseArg X plan_id arg [] s of
           (False, info, s1) \<Rightarrow>
             (False, changeMode0 X c PCS_READY (''plan load failed: '' @ info) s1)
         | (True, info, s1) \<Rightarrow>
             (case parsePlan X plan_startup s1 of
                ((False, _), s2) \<Rightarrow>
                  (False, changeMode0 X c PCS_READY
                            (''plan parse failed: '' @ pc_info (m_reply s2)) s2)
              | ((True, ps), s2) \<Rightarrow>
                  (let s3 = s2\<lparr>m_reply := (m_reply s2)\<lparr>pc_arg := map_option PlanStatisticsMsg ps\<rparr>\<rparr>;
                       s4 = s3\<lparr>m_reply := (m_reply s3)\<lparr>pc_plan_id := spec_plan_id (m_spec s3)\<rparr>\<rparr>;
                       s5 = s4\<lparr>m_pcs := (m_pcs s4)\<lparr>pcs_plan_id := spec_plan_id (m_spec s4)\<rparr>\<rparr>
                   in (True, onSuccess ''plan loaded'' s5)))))"

definition getPlan :: "('p, 'd) task \<Rightarrow> ('p, 'd) task" where
  "getPlan s =
     (if \<not> initMode s \<and> \<not> execMode s
      then onFailure ''no plan is running'' s
      else
        (let s1 = s\<lparr>m_reply := (m_reply s)\<lparr>pc_arg := Some (PlanSpecificationMsg (m_spec s))\<rparr>\<rparr>;
             s2 = s1\<lparr>m_reply := (m_reply s1)\<lparr>pc_plan_id := spec_plan_id (m_spec s1)\<rparr>\<rparr>
         in onSuccess ''OK'' s2))"

definition stopPlan ::
  "('p, 'd) collab \<Rightarrow> clock \<Rightarrow> bool \<Rightarrow> ('p, 'd) task \<Rightarrow> bool \<times> ('p, 'd) task" where
  "stopPlan X c plan_startup s =
     (if initMode s \<or> execMode s
      then
        (if \<not> plan_startup
         then
           (let s1 = vehicleRequest X c VC_STOP_MANEUVER None s;
                s2 = s1\<lparr>m_reply := (m_reply s1)\<lparr>pc_plan_id := spec_plan_id (m_spec s1)\<rparr>\<rparr>;
                s3 = s2\<lparr>m_pcs := (m_pcs s2)\<lparr>pcs_last_outcome := LPO_FAILURE\<rparr>\<rparr>
            in (True, changeMode0 X c PCS_READY ''plan stopped'' s3))
         else (False, s\<lparr>m_pcs := (m_pcs s)\<lparr>pcs_last_outcome := LPO_FAILURE\<rparr>\<rparr>))
      else
        (if \<not> plan_startup
         then
           (let s1 = onFailure ''no plan is running, request ignored'' s
            in (True, s1\<lparr>m_reply := (m_reply s1)\<lparr>pc_plan_id := []\<rparr>\<rparr>))
         else (True, s)))"

definition startCalibration ::
  "('p, 'd) collab \<Rightarrow> clock \<Rightarrow> ('p, 'd) task \<Rightarrow> bool \<times> ('p, 'd) task" where
  "startCalibration X c s =
     (if blockedMode s
      then (False, onFailure ''cannot initialize plan in BLOCKED state'' s)
      else
        (let m = (if arg_sk_calib (m_args s)
                  then (case toWGS84 X (m_state s) of
                          (lat, lon) \<Rightarrow>
                            \<lparr>man_plan_ref = 0, man_memento = [],
                             man_body = StationKeeping lat lon 0 Z_DEPTH (arg_sk_radius (m_args s))
                                          (arg_sk_rpm (m_args s)) SUNITS_RPM\<rparr>)
                  else \<lparr>man_plan_ref = 0, man_memento = [], man_body = IdleManeuver 0\<rparr>)
         in (True, vehicleRequest X c VC_EXEC_MANEUVER (Some m) s)))"

definition startPlan ::
  "('p, 'd) collab \<Rightarrow> clock \<Rightarrow> string \<Rightarrow> message option \<Rightarrow> 16 word \<Rightarrow> ('p, 'd) task
   \<Rightarrow> bool \<times> ('p, 'd) task" where
  "startPlan X c plan_id spec flags s =
     (case stopPlan X c True s of
        (stopped, s0) \<Rightarrow>
          (let s1 = changeMode0 X c PCS_INITIALIZING (''plan initializing: '' @ plan_id) s0
           in case loadPlan X c plan_id spec True s1 of
                (False, s2) \<Rightarrow> (stopped, s2)
              | (True, s2) \<Rightarrow>
                  (let s3 = changeLog plan_id s2;
                       s4 = (if initMode s3 \<or> execMode s3
                             then (let s' = (if \<not> stopped
                                             then s3\<lparr>m_plan := p_planStopped X (m_plan s3)\<rparr>
                                             else s3)
                                   in s'\<lparr>m_plan := p_planStarted X (m_plan s')\<rparr>)
                             else s3);
                       s5 = dispatch (OutPlanSpecification (m_spec s4)) s4;
                       s6 = s5\<lparr>m_plan_ref := m_plan_ref s5 + 1\<rparr>;
                       s7 = s6\<lparr>m_mh := mh_add (m_plan_ref s6) (m_spec s6) (m_mh s6)\<rparr>
                   in if (flags AND FLG_CALIBRATE) \<noteq> 0 \<and> arg_do_calib (m_args s7)
                      then (case startCalibration X c s7 of
                              (False, s8) \<Rightarrow> (stopped, s8)
                            | (True, s8) \<Rightarrow> (True, s8))
                      else (case p_loadStartManeuver X (m_plan s7) (m_spec s7) of
                              (pman, p') \<Rightarrow>
                                (let s8 = startManeuver X c pman (s7\<lparr>m_plan := p'\<rparr>)
                                 in if execMode s8
                                    then (True, onSuccess (m_last_event s8) s8)
                                    else (stopped, onFailure (m_last_event s8) s8))))))"

definition processRequest ::
  "('p, 'd) collab \<Rightarrow> clock \<Rightarrow> plan_control \<Rightarrow> ('p, 'd) task \<Rightarrow> ('p, 'd) task" where
  "processRequest X c pc s =
     (let s1 = s\<lparr>m_reply := (m_reply s)\<lparr>pc_destination := pc_source pc,
                                         pc_destination_entity := pc_source_entity pc,
                                         pc_request_id := pc_request_id pc,
                                         pc_op := pc_op pc,
                                         pc_plan_id := pc_plan_id pc\<rparr>\<rparr>
      in if entity_state s1 \<noteq> ESTA_NORMAL
         then onFailure ''engine not ready: entity state not normal'' s1
         else
           (case pc_op pc of
              PC_START \<Rightarrow>
                (case startPlan X c (pc_plan_id pc) (pc_arg pc) (pc_flags pc) s1 of
                   (False, s2) \<Rightarrow> vehicleRequest X c VC_STOP_MANEUVER None s2
                 | (True, s2) \<Rightarrow> s2)
            | PC_STOP \<Rightarrow> snd (stopPlan X c False s1)
            | PC_LOAD \<Rightarrow> snd (loadPlan X c (pc_plan_id pc) (pc_arg pc) False s1)
            | PC_GET \<Rightarrow> getPlan s1
            | PC_OP_OTHER _ \<Rightarrow> onFailure ''plan control operation not supported'' s1))"

subsection \<open>The message handlers\<close>

definition consume_EstimatedState :: "estimated_state \<Rightarrow> ('p, 'd) task \<Rightarrow> ('p, 'd) task" where
  "consume_EstimatedState msg s =
     (if es_source msg \<noteq> system_id s then s else s\<lparr>m_state := msg\<rparr>)"

definition consume_ManeuverControlState ::
  "('p, 'd) collab \<Rightarrow> maneuver_control_state \<Rightarrow> ('p, 'd) task \<Rightarrow> ('p, 'd) task" where
  "consume_ManeuverControlState X msg s =
     (let s1 = s\<lparr>m_mcs := msg\<rparr>
      in if mcs_state msg = MCS_DONE then s1\<lparr>m_plan := p_maneuverDone X (m_plan s1)\<rparr> else s1)"

definition consume_PowerOperation ::
  "('p, 'd) collab \<Rightarrow> power_operation \<Rightarrow> ('p, 'd) task \<Rightarrow> ('p, 'd) task" where
  "consume_PowerOperation X po s =
     (if po_destination po \<noteq> system_id s then s
      else
        (case po_op po of
           POP_PWR_DOWN_IP \<Rightarrow>
             setEntityState ESTA_ERROR CODE_POWER_DOWN (s\<lparr>m_db := db_close X (m_db s)\<rparr>)
         | POP_PWR_DOWN_ABORTED \<Rightarrow>
             (case db_open X (m_db s) of
                (True, d') \<Rightarrow> setEntityState ESTA_NORMAL CODE_ACTIVE (s\<lparr>m_db := d'\<rparr>)
              | (False, d') \<Rightarrow> setEntityState ESTA_ERROR CODE_DB_ERROR (s\<lparr>m_db := d'\<rparr>))
         | _ \<Rightarrow> s))"

definition consume_RegisterManeuver :: "register_maneuver \<Rightarrow> ('p, 'd) task \<Rightarrow> ('p, 'd) task" where
  "consume_RegisterManeuver msg s =
     s\<lparr>m_supported_maneuvers := insert (rm_mid msg) (m_supported_maneuvers s)\<rparr>"

text \<open>\<open>std::map::insert\<close> keeps the entry of a label that is already there.\<close>

definition consume_EntityInfo :: "entity_info \<Rightarrow> ('p, 'd) task \<Rightarrow> ('p, 'd) task" where
  "consume_EntityInfo msg s =
     (if map_of (m_cinfo s) (ei_label msg) = None
      then s\<lparr>m_cinfo := m_cinfo s @ [(ei_label msg, msg)]\<rparr>
      else s)"

definition consume_PlanDB :: "('p, 'd) collab \<Rightarrow> plan_db \<Rightarrow> ('p, 'd) task \<Rightarrow> ('p, 'd) task" where
  "consume_PlanDB X pdb s =
     (case db_onPlanDB X (m_db s) pdb of
        (False, d') \<Rightarrow> setEntityState ESTA_ERROR CODE_DB_ERROR (s\<lparr>m_db := d'\<rparr>)
      | (True, d') \<Rightarrow> setEntityState ESTA_NORMAL CODE_ACTIVE (s\<lparr>m_db := d'\<rparr>))"

definition consume_EntityActivationState ::
  "('p, 'd) collab \<Rightarrow> clock \<Rightarrow> entity_activation_state \<Rightarrow> ('p, 'd) task \<Rightarrow> ('p, 'd) task" where
  "consume_EntityActivationState X c msg s =
     (let s1 = (if unat (eas_source_entity msg) = m_eid_imu s
                then (if eas_state msg = EAS_ACTIVE
                      then s\<lparr>m_imu_enabled := True\<rparr>
                      else s\<lparr>m_imu_enabled := False\<rparr>)
                else s)
      in case resolveEntity X (unat (eas_source_entity msg)) of
           None \<Rightarrow> s1
         | Some ident \<Rightarrow>
             (case p_onEntityActivationState X (m_plan s1) ident msg of
                (True, p') \<Rightarrow> s1\<lparr>m_plan := p'\<rparr>
              | (False, p') \<Rightarrow>
                  (let s2 = s1\<lparr>m_plan := p'\<rparr>;
                       error = ''failed to activate '' @ ident @ '': '' @ eas_error msg
                   in if arg_actfail_abort (m_args s2)
                      then
                        (let s3 = onFailure error s2;
                             s4 = (if initMode s3 \<and> \<not> pendingReply s3
                                   then (let s' = vehicleRequest X c VC_STOP_CALIBRATION None s3
                                         in s'\<lparr>m_reply := (m_reply s')\<lparr>pc_plan_id := spec_plan_id (m_spec s')\<rparr>\<rparr>)
                                   else s3)
                         in changeMode0 X c PCS_READY error s4)
                      else s2)))"

definition consume_FuelLevel :: "('p, 'd) collab \<Rightarrow> fuel_level \<Rightarrow> ('p, 'd) task \<Rightarrow> ('p, 'd) task" where
  "consume_FuelLevel X msg s = s\<lparr>m_plan := p_onFuelLevel X (m_plan s) msg\<rparr>"

definition consume_Memento :: "('p, 'd) collab \<Rightarrow> memento \<Rightarrow> ('p, 'd) task \<Rightarrow> ('p, 'd) task" where
  "consume_Memento X msg s =
     (case mh_processMemento (m_mh s) msg of
        None \<Rightarrow> s
      | Some pmem \<Rightarrow>
          s\<lparr>m_db := db_sendToDB X (m_db s) DBDT_MEMENTO (mem_id msg) (MementoMsg msg)\<rparr>)"

definition consume_VehicleCommand ::
  "('p, 'd) collab \<Rightarrow> clock \<Rightarrow> vehicle_command \<Rightarrow> ('p, 'd) task \<Rightarrow> ('p, 'd) task" where
  "consume_VehicleCommand X c vc s =
     (if vc_type vc = VC_REQUEST then s
      else if \<not> pendingReply s then s
      else if vc_destination vc \<noteq> system_id s \<or> vc_destination_entity vc \<noteq> entity_id s
              \<or> m_vreq_ctr s \<noteq> vc_request_id vc
      then s
      else
        (let s1 = s\<lparr>m_vc_reply_deadline := - 1\<rparr>;
             error = (vc_type vc = VC_FAILURE);
             error1 = (if error \<and> vc_command vc = VC_STOP_CALIBRATION then False else error)
         in if initMode s1 \<or> execMode s1
            then (if error1 then changeMode0 X c PCS_READY (vc_info vc) s1 else s1)
            else s1))"

definition onVehicleService ::
  "('p, 'd) collab \<Rightarrow> clock \<Rightarrow> vehicle_state \<Rightarrow> ('p, 'd) task \<Rightarrow> ('p, 'd) task" where
  "onVehicleService X c vs s =
     (case pcs_state (m_pcs s) of
        PCS_BLOCKED \<Rightarrow> changeMode0 X c PCS_READY ''vehicle ready'' s
      | PCS_INITIALIZING \<Rightarrow>
          (if \<not> pendingReply s
           then (case p_loadStartManeuver X (m_plan s) (m_spec s) of
                   (pman, p') \<Rightarrow> startManeuver X c pman (s\<lparr>m_plan := p'\<rparr>))
           else s)
      | PCS_EXECUTING \<Rightarrow>
          (if \<not> pendingReply s
           then (let s1 = onFailure (vs_last_error vs) s;
                     s2 = s1\<lparr>m_reply := (m_reply s1)\<lparr>pc_plan_id := spec_plan_id (m_spec s1)\<rparr>\<rparr>
                 in changeMode0 X c PCS_READY (vs_last_error vs) s2)
           else s)
      | PCS_READY \<Rightarrow> s)"

definition onVehicleManeuver ::
  "('p, 'd) collab \<Rightarrow> clock \<Rightarrow> vehicle_state \<Rightarrow> ('p, 'd) task \<Rightarrow> ('p, 'd) task" where
  "onVehicleManeuver X c vs s =
     (if \<not> execMode s \<or> pendingReply s then s
      else if (vs_flags vs AND VFLG_MANEUVER_DONE) \<noteq> 0
      then
        (if p_isDone X (m_plan s)
         then
           (let s1 = vehicleRequest X c VC_STOP_MANEUVER None s;
                comp = ''plan completed'';
                s2 = onSuccess comp s1;
                s3 = s2\<lparr>m_pcs := (m_pcs s2)\<lparr>pcs_last_outcome := LPO_SUCCESS\<rparr>\<rparr>;
                s4 = s3\<lparr>m_reply := (m_reply s3)\<lparr>pc_plan_id := spec_plan_id (m_spec s3)\<rparr>\<rparr>
            in changeMode0 X c PCS_READY comp s4)
         else
           (case p_loadNextManeuver X (m_plan s) (m_spec s) of
              (pman, p') \<Rightarrow> startManeuver X c pman (s\<lparr>m_plan := p'\<rparr>)))
      else s\<lparr>m_pcs := (m_pcs s)\<lparr>pcs_man_eta := uint (vs_maneuver_eta vs)\<rparr>\<rparr>)"

definition onVehicleError ::
  "('p, 'd) collab \<Rightarrow> clock \<Rightarrow> vehicle_state \<Rightarrow> ('p, 'd) task \<Rightarrow> ('p, 'd) task" where
  "onVehicleError X c vs s =
     (let err_ents = ''vehicle errors: '' @ vs_error_ents vs;
          edesc = (if vs_last_error_time vs < 0 then err_ents else vs_last_error vs);
          s1 = (if execMode s
                then (let s' = onFailure edesc s
                      in s'\<lparr>m_reply := (m_reply s')\<lparr>pc_plan_id := spec_plan_id (m_spec s')\<rparr>\<rparr>)
                else s)
      in if edesc \<noteq> m_last_event s1 \<and> \<not> pendingReply s1
         then
           (let s2 = (if initMode s1
                      then (let sa = onFailure edesc s1;
                                sb = vehicleRequest X c VC_STOP_CALIBRATION None sa
                            in sb\<lparr>m_reply := (m_reply sb)\<lparr>pc_plan_id := spec_plan_id (m_spec sb)\<rparr>\<rparr>)
                      else s1)
            in changeMode0 X c PCS_BLOCKED edesc s2)
         else s1)"

definition consume_VehicleState ::
  "('p, 'd) collab \<Rightarrow> clock \<Rightarrow> vehicle_state \<Rightarrow> ('p, 'd) task \<Rightarrow> ('p, 'd) task" where
  "consume_VehicleState X c vs s =
     (if entity_state s = ESTA_BOOT then s
      else
        (let s1 = s\<lparr>m_last_vstate := clk_get c\<rparr>;
             s2 = (case vs_op_mode vs of
                     VS_SERVICE \<Rightarrow> onVehicleService X c vs s1
                   | VS_ERROR \<Rightarrow> onVehicleError X c vs s1
                   | VS_BOOT \<Rightarrow> onVehicleError X c vs s1
                   | VS_MANEUVER \<Rightarrow> onVehicleManeuver X c vs s1
                   | _ \<Rightarrow> s1)
         in if initMode s2
            then
              (let s3 = s2\<lparr>m_plan := p_updateCalibration X (m_plan s2) vs\<rparr>
               in if p_isCalibrationDone X (m_plan s3)
                  then (if vs_op_mode vs = VS_CALIBRATION \<and> \<not> pendingReply s3
                        then (case p_loadStartManeuver X (m_plan s3) (m_spec s3) of
                                (pman, p') \<Rightarrow> startManeuver X c pman (s3\<lparr>m_plan := p'\<rparr>))
                        else s3)
                  else if p_hasCalibrationFailed X (m_plan s3)
                  then (let s4 = onFailure (p_getCalibrationInfo X (m_plan s3)) s3;
                            s5 = s4\<lparr>m_reply := (m_reply s4)\<lparr>pc_plan_id := spec_plan_id (m_spec s4)\<rparr>\<rparr>
                        in changeMode0 X c PCS_READY (p_getCalibrationInfo X (m_plan s5)) s5)
                  else s3)
            else s2))"

text \<open>
  A request is processed at once only when no reply of the vehicle is pending;
  otherwise it joins the queue \<open>m_requests\<close> at the back.
\<close>

definition consume_PlanControl ::
  "('p, 'd) collab \<Rightarrow> clock \<Rightarrow> plan_control \<Rightarrow> ('p, 'd) task \<Rightarrow> ('p, 'd) task" where
  "consume_PlanControl X c pc s =
     (if pc_type pc \<noteq> PC_REQUEST then s
      else if pendingReply s then s\<lparr>m_requests := m_requests s @ [pc]\<rparr>
      else
        (case m_requests s of
           front # rest \<Rightarrow>
             (let s1 = s\<lparr>m_requests := m_requests s @ [pc]\<rparr>;
                  s2 = processRequest X c front s1
              in s2\<lparr>m_requests := tl (m_requests s2)\<rparr>)
         | [] \<Rightarrow> processRequest X c pc s))"

subsection \<open>The main loop\<close>

definition setInitialState :: "clock \<Rightarrow> ('p, 'd) task \<Rightarrow> ('p, 'd) task" where
  "setInitialState c s =
     (let s1 = s\<lparr>m_pcs := (m_pcs s)\<lparr>pcs_state := PCS_READY, pcs_plan_id := [], pcs_man_id := [],
                                      pcs_man_type := 0xFFFF, pcs_plan_progress := - 1,
                                      pcs_last_outcome := LPO_NONE\<rparr>\<rparr>;
          s2 = s1\<lparr>m_last_event := ''initializing''\<rparr>;
          s3 = dispatch (OutPlanControlState (m_pcs s2)) s2
      in s3\<lparr>m_vreq_ctr := 0, m_vc_reply_deadline := - 1, m_last_vstate := clk_get c\<rparr>)"

definition reportProgress :: "('p, 'd) collab \<Rightarrow> ('p, 'd) task \<Rightarrow> ('p, 'd) task" where
  "reportProgress X s =
     (if \<not> execMode s \<and> \<not> initMode s then s
      else
        (case p_updateProgress X (m_plan s) (m_mcs s) of
           (progress, p') \<Rightarrow>
             (let s1 = s\<lparr>m_plan := p'\<rparr>;
                  s2 = s1\<lparr>m_pcs := (m_pcs s1)\<lparr>pcs_plan_progress := progress\<rparr>\<rparr>
              in s2\<lparr>m_pcs := (m_pcs s2)\<lparr>pcs_plan_eta := trunc (p_getETA X (m_plan s2))\<rparr>\<rparr>)))"

text \<open>
  One pass of the loop of \<open>onMain\<close>, in its four parts. \<open>report_due\<close> says
  whether the report timer has overflowed. A pass that ends in \<open>waitForMessages\<close>
  ends here; the messages that arrive are the next handler calls.
\<close>

definition onMain_report :: "('p, 'd) collab \<Rightarrow> bool \<Rightarrow> ('p, 'd) task \<Rightarrow> ('p, 'd) task" where
  "onMain_report X report_due s =
     (if report_due
      then (let s1 = (if arg_progress (m_args s) then reportProgress X s else s)
            in dispatch (OutPlanControlState (m_pcs s1)) s1)
      else s)"

definition onMain_vstate :: "('p, 'd) collab \<Rightarrow> clock \<Rightarrow> ('p, 'd) task \<Rightarrow> ('p, 'd) task" where
  "onMain_vstate X c s =
     (let now = clk_get c
      in if entity_state s = ESTA_NORMAL \<and> to_double X (now - m_last_vstate s) \<ge> c_vs_timeout
         then (let s1 = changeMode0 X c PCS_BLOCKED ''vehicle state timeout'' s
               in s1\<lparr>m_last_vstate := now\<rparr>)
         else s)"

definition onMain_requests :: "('p, 'd) collab \<Rightarrow> clock \<Rightarrow> ('p, 'd) task \<Rightarrow> ('p, 'd) task" where
  "onMain_requests X c s =
     (if \<not> pendingReply s
      then (case m_requests s of
              front # rest \<Rightarrow>
                (let s1 = processRequest X c front s
                 in s1\<lparr>m_requests := tl (m_requests s1)\<rparr>)
            | [] \<Rightarrow> s)
      else s)"

definition onMain_reply :: "('p, 'd) collab \<Rightarrow> clock \<Rightarrow> ('p, 'd) task \<Rightarrow> ('p, 'd) task" where
  "onMain_reply X c s =
     (let now = clk_get c;
          delta = (if m_vc_reply_deadline s < 0 then 1 else m_vc_reply_deadline s - now)
      in if delta > 0 then s
         else
           (let s1 = s\<lparr>m_vc_reply_deadline := - 1\<rparr>;
                s2 = changeMode0 X c PCS_READY ''vehicle reply timeout'' s1;
                s3 = s2\<lparr>m_requests := []\<rparr>
            in s3\<lparr>m_vreq_ctr := m_vreq_ctr s3 + 1\<rparr>))"

definition onMain_pass :: "('p, 'd) collab \<Rightarrow> clock \<Rightarrow> bool \<Rightarrow> ('p, 'd) task \<Rightarrow> ('p, 'd) task" where
  "onMain_pass X c report_due s =
     onMain_reply X c (onMain_requests X c (onMain_vstate X c (onMain_report X report_due s)))"

subsection \<open>The task as a transition system\<close>

datatype event =
    EvEstimatedState estimated_state
  | EvManeuverControlState maneuver_control_state
  | EvPowerOperation power_operation
  | EvRegisterManeuver register_maneuver
  | EvEntityInfo entity_info
  | EvPlanDB plan_db
  | EvEntityActivationState entity_activation_state
  | EvFuelLevel fuel_level
  | EvMemento memento
  | EvVehicleCommand vehicle_command
  | EvVehicleState vehicle_state
  | EvPlanControl plan_control
  | EvMainPass bool

fun step :: "('p, 'd) collab \<Rightarrow> clock \<Rightarrow> event \<Rightarrow> ('p, 'd) task \<Rightarrow> ('p, 'd) task" where
  "step X c (EvEstimatedState m) s = consume_EstimatedState m s"
| "step X c (EvManeuverControlState m) s = consume_ManeuverControlState X m s"
| "step X c (EvPowerOperation m) s = consume_PowerOperation X m s"
| "step X c (EvRegisterManeuver m) s = consume_RegisterManeuver m s"
| "step X c (EvEntityInfo m) s = consume_EntityInfo m s"
| "step X c (EvPlanDB m) s = consume_PlanDB X m s"
| "step X c (EvEntityActivationState m) s = consume_EntityActivationState X c m s"
| "step X c (EvFuelLevel m) s = consume_FuelLevel X m s"
| "step X c (EvMemento m) s = consume_Memento X m s"
| "step X c (EvVehicleCommand m) s = consume_VehicleCommand X c m s"
| "step X c (EvVehicleState m) s = consume_VehicleState X c m s"
| "step X c (EvPlanControl m) s = consume_PlanControl X c m s"
| "step X c (EvMainPass report_due) s = onMain_pass X c report_due s"

text \<open>
  A run of the task: the handler calls and the passes of the main loop in the order
  they happen, each with the clocks at its time.
\<close>

fun run :: "('p, 'd) collab \<Rightarrow> (clock \<times> event) list \<Rightarrow> ('p, 'd) task \<Rightarrow> ('p, 'd) task" where
  "run X [] s = s"
| "run X ((c, e) # es) s = run X es (step X c e s)"

text \<open>The messages dispatched between two states of the task.\<close>

definition emitted :: "('p, 'd) task \<Rightarrow> ('p, 'd) task \<Rightarrow> out_msg list" where
  "emitted s s' = drop (length (bus s)) (bus s')"

fun is_vehicle_request :: "out_msg \<Rightarrow> bool" where
  "is_vehicle_request (OutVehicleCommand vc) = (vc_type vc = VC_REQUEST)"
| "is_vehicle_request _ = False"

fun is_plan_control :: "out_msg \<Rightarrow> bool" where
  "is_plan_control (OutPlanControl pc) = True"
| "is_plan_control _ = False"

text \<open>The number of vehicle requests among dispatched messages.\<close>

definition vrequests :: "out_msg list \<Rightarrow> nat" where
  "vrequests ms = length (filter is_vehicle_request ms)"

subsection \<open>An instance of the collaborators\<close>

text \<open>
  A small instance of the collaborators, to run the task on concrete inputs. The plan
  object counts the maneuvers it has started; it accepts every specification that has
  a maneuver and starts at the maneuver named by \<open>start_man_id\<close>. The database is
  the list of what has been sent to it, and finds the plan stored last under a name.
  The rounding is the identity: the times used below are doubles and so are their
  differences.
\<close>

fun stub_find_maneuver :: "string \<Rightarrow> plan_maneuver option list \<Rightarrow> plan_maneuver option" where
  "stub_find_maneuver ident [] = None"
| "stub_find_maneuver ident (None # ms) = stub_find_maneuver ident ms"
| "stub_find_maneuver ident (Some pm # ms) =
     (if pm_maneuver_id pm = ident then Some pm else stub_find_maneuver ident ms)"

fun stub_find_plan :: "string \<Rightarrow> (db_kind \<times> string \<times> message) list \<Rightarrow> plan_specification option" where
  "stub_find_plan ident [] = None"
| "stub_find_plan ident ((k, i, m) # r) =
     (case stub_find_plan ident r of
        Some sp \<Rightarrow> Some sp
      | None \<Rightarrow>
          (case m of
             PlanSpecificationMsg sp \<Rightarrow> if k = DBDT_PLAN \<and> i = ident then Some sp else None
           | _ \<Rightarrow> None))"

fun stub_find_memento :: "string \<Rightarrow> (db_kind \<times> string \<times> message) list \<Rightarrow> plan_memento option" where
  "stub_find_memento ident [] = None"
| "stub_find_memento ident ((k, i, m) # r) =
     (case stub_find_memento ident r of
        Some pmem \<Rightarrow> Some pmem
      | None \<Rightarrow>
          (case m of
             PlanMementoMsg pmem \<Rightarrow> if k = DBDT_MEMENTO \<and> i = ident then Some pmem else None
           | _ \<Rightarrow> None))"

definition stub_collab :: "(nat, (db_kind \<times> string \<times> message) list) collab" where
  "stub_collab =
     \<lparr>p_parse = (\<lambda>p sp sup ci imu st.
          if spec_maneuvers sp = [] then (0, Inl ''plan has no maneuvers'')
          else (0, Inr \<lparr>ps_plan_id = spec_plan_id sp, ps_properties = [], ps_durations = [],
                        ps_distances = [], ps_fuel = []\<rparr>)),
      p_clear = (\<lambda>p. 0),
      p_loadStartManeuver = (\<lambda>p sp. (stub_find_maneuver (spec_start_man_id sp) (spec_maneuvers sp), p)),
      p_loadNextManeuver = (\<lambda>p sp. (None, p)),
      p_isDone = (\<lambda>p. True),
      p_maneuverStarted = (\<lambda>p ident. p + 1),
      p_maneuverDone = (\<lambda>p. p),
      p_planStarted = (\<lambda>p. p),
      p_planStopped = (\<lambda>p. p),
      p_updateCalibration = (\<lambda>p vs. p),
      p_isCalibrationDone = (\<lambda>p. False),
      p_hasCalibrationFailed = (\<lambda>p. False),
      p_getCalibrationInfo = (\<lambda>p. []),
      p_calibrationStarted = (\<lambda>p. p),
      p_getEstimatedCalibrationTime = (\<lambda>p. 0),
      p_onEntityActivationState = (\<lambda>p ident msg. (True, p)),
      p_onFuelLevel = (\<lambda>p msg. p),
      p_updateProgress = (\<lambda>p msg. (- 1, p)),
      p_getETA = (\<lambda>p. 0),
      p_getCurrentId = (\<lambda>p. []),
      db_sendToDB = (\<lambda>d k i m. d @ [(k, i, m)]),
      db_searchPlan = (\<lambda>d ident info.
          case stub_find_plan ident d of
            Some sp \<Rightarrow> (Some sp, info)
          | None \<Rightarrow> (None, ''undefined plan'')),
      db_searchMemento = (\<lambda>d ident info.
          case stub_find_memento ident d of
            Some pmem \<Rightarrow> (Some pmem, info)
          | None \<Rightarrow> (None, ''undefined memento'')),
      db_onPlanDB = (\<lambda>d pdb. (True, d)),
      db_open = (\<lambda>d. (True, d)),
      db_close = (\<lambda>d. d),
      resolveEntity = (\<lambda>n. None),
      toWGS84 = (\<lambda>st. (es_lat st, es_lon st)),
      to_double = (\<lambda>x. x),
      as_maneuver = (\<lambda>a. \<lparr>man_plan_ref = 0, man_memento = [],
                              man_body = OtherManeuver (msg_getName a) 0 []\<rparr>)\<rparr>"

text \<open>
  A task whose resources are initialized and whose database has answered, before
  \<open>onMain\<close> starts: system 30, entity 7.
\<close>

definition task0 :: "(nat, (db_kind \<times> string \<times> message) list) task" where
  "task0 =
     \<lparr>m_plan = 0,
      m_pcs = \<lparr>pcs_timestamp = 0, pcs_state = PCS_BLOCKED, pcs_plan_id = [], pcs_plan_eta = 0,
               pcs_plan_progress = 0, pcs_man_id = [], pcs_man_type = 0, pcs_man_eta = 0,
               pcs_last_outcome = LPO_NONE\<rparr>,
      m_reply = \<lparr>pc_source = 0, pc_source_entity = 0, pc_destination = 0,
                 pc_destination_entity = 0, pc_type = PC_REQUEST, pc_op = PC_START,
                 pc_request_id = 0, pc_plan_id = [], pc_flags = 0, pc_arg = None, pc_info = []\<rparr>,
      m_last_event = [],
      m_vreq_ctr = 0,
      m_vc_reply_deadline = 0,
      m_last_vstate = 0,
      m_vc = \<lparr>vc_destination = 0, vc_destination_entity = 0, vc_type = VC_REQUEST,
              vc_request_id = 0, vc_command = VC_EXEC_MANEUVER, vc_maneuver = None,
              vc_calib_time = 0, vc_info = []\<rparr>,
      m_spec = \<lparr>spec_source_entity = 0, spec_plan_id = [], spec_description = [],
                spec_vnamespace = [], spec_start_man_id = [], spec_maneuvers = [],
                spec_transitions = []\<rparr>,
      m_supported_maneuvers = {},
      m_db = [],
      m_lc = \<lparr>lc_op = COP_REQUEST_START, lc_name = []\<rparr>,
      m_state = \<lparr>es_source = 0, es_lat = 0, es_lon = 0, es_height = 0, es_x = 0, es_y = 0,
                 es_z = 0\<rparr>,
      m_mcs = \<lparr>mcs_state = MCS_STOPPED, mcs_eta = 0, mcs_info = []\<rparr>,
      m_cinfo = [],
      m_eid_imu = 0,
      m_imu_enabled = False,
      m_requests = [],
      m_plan_ref = 0,
      m_mh = [],
      m_args = \<lparr>arg_progress = False, arg_fpredict = True, arg_speriod = 1 / 3,
                arg_calibration_time = 10, arg_do_calib = True, arg_actfail_abort = False,
                arg_sk_calib = False, arg_sk_radius = 20, arg_sk_rpm = 1600,
                arg_label_imu = ''IMU''\<rparr>,
      system_id = 30,
      entity_id = 7,
      entity_state = ESTA_NORMAL,
      entity_code = CODE_ACTIVE,
      bus = []\<rparr>"

text \<open>The clocks at \<open>t\<close> seconds after the start of the main loop.\<close>

definition clock_at :: "real \<Rightarrow> clock" where
  "clock_at t = \<lparr>clk_get = t, clk_epoch = 1000 + t\<rparr>"

text \<open>The task at the start of the main loop.\<close>

definition task_ready :: "(nat, (db_kind \<times> string \<times> message) list) task" where
  "task_ready = setInitialState (clock_at 0) task0"

text \<open>A plan of one maneuver, and requests of an operator (system 1, entity 2) about it.\<close>

definition goto_a :: plan_maneuver where
  "goto_a = \<lparr>pm_maneuver_id = ''A'',
             pm_data = Some \<lparr>man_plan_ref = 0, man_memento = [],
                             man_body = OtherManeuver ''Goto'' 450 ''lat=0.7;lon=-0.15''\<rparr>\<rparr>"

definition plan_p1 :: plan_specification where
  "plan_p1 = \<lparr>spec_source_entity = 2, spec_plan_id = ''p1'', spec_description = ''survey'',
              spec_vnamespace = [], spec_start_man_id = ''A'', spec_maneuvers = [Some goto_a],
              spec_transitions = []\<rparr>"

definition request :: "pc_op_enum \<Rightarrow> 16 word \<Rightarrow> message option \<Rightarrow> plan_control" where
  "request op rid arg =
     \<lparr>pc_source = 1, pc_source_entity = 2, pc_destination = 30, pc_destination_entity = 7,
      pc_type = PC_REQUEST, pc_op = op, pc_request_id = rid, pc_plan_id = ''p1'',
      pc_flags = 0, pc_arg = arg, pc_info = []\<rparr>"

text \<open>A reply of the vehicle to the request numbered \<open>rid\<close>, addressed to the task.\<close>

definition vreply :: "vc_type_enum \<Rightarrow> 16 word \<Rightarrow> vehicle_command" where
  "vreply ty rid =
     \<lparr>vc_destination = 30, vc_destination_entity = 7, vc_type = ty, vc_request_id = rid,
      vc_command = VC_EXEC_MANEUVER, vc_maneuver = None, vc_calib_time = 0, vc_info = []\<rparr>"

text \<open>
  The task after the operator's request, at time 0, to start \<open>p1\<close>, which
  comes with the request: the plan is being executed and the vehicle request 1 is in
  flight, with its deadline at 2.5 seconds.
\<close>

definition task_pending :: "(nat, (db_kind \<times> string \<times> message) list) task" where
  "task_pending =
     consume_PlanControl stub_collab (clock_at 0)
       (request PC_START 10 (Some (PlanSpecificationMsg plan_p1))) task_ready"

text \<open>A memento of the vehicle for the plan started under the plan reference 1.\<close>

definition memento_m1 :: memento where
  "memento_m1 = \<lparr>mem_id = ''m1'', mem_plan_ref = 1, mem_maneuver_id = ''A'',
                 mem_memento = ''resume-at-3''\<rparr>"

text \<open>The task with two requests in its queue and no reply pending.\<close>

definition task_queued :: "(nat, (db_kind \<times> string \<times> message) list) task" where
  "task_queued = task_ready\<lparr>m_requests := [request PC_GET 12 None, request PC_STOP 13 None]\<rparr>"

text \<open>An estimate of the state of the vehicle, as the system \<open>src\<close> sends it.\<close>

definition es_from :: "16 word \<Rightarrow> estimated_state" where
  "es_from src = \<lparr>es_source = src, es_lat = 0.7, es_lon = - 0.15, es_height = 0, es_x = 10,
                  es_y = 20, es_z = 2\<rparr>"

text \<open>A state of the vehicle in service, without errors.\<close>

definition vstate_service :: vehicle_state where
  "vstate_service = \<lparr>vs_op_mode = VS_SERVICE, vs_error_ents = [], vs_last_error = [],
                     vs_last_error_time = - 1, vs_flags = 0, vs_maneuver_eta = 0\<rparr>"

section \<open>Effects of the basic operations\<close>

lemma mode_simps:
  "initMode s = (pcs_state (m_pcs s) = PCS_INITIALIZING)"
  "execMode s = (pcs_state (m_pcs s) = PCS_EXECUTING)"
  "blockedMode s = (pcs_state (m_pcs s) = PCS_BLOCKED)"
  "readyMode s = (pcs_state (m_pcs s) = PCS_READY)"
  by (simp_all add: initMode_def execMode_def blockedMode_def readyMode_def)

lemma vrequests_simps [simp]:
  "vrequests [] = 0"
  "vrequests (xs @ ys) = vrequests xs + vrequests ys"
  "vrequests (OutVehicleCommand vc # xs) = (if vc_type vc = VC_REQUEST then 1 else 0) + vrequests xs"
  "vrequests (OutPlanControlState p # xs) = vrequests xs"
  "vrequests (OutPlanControl r # xs) = vrequests xs"
  "vrequests (OutLoggingControl l # xs) = vrequests xs"
  "vrequests (OutPlanSpecification sp # xs) = vrequests xs"
  by (simp_all add: vrequests_def)

lemma prefix_bus_append [simp]: "prefix xs (bus s) \<Longrightarrow> prefix xs (bus s @ ys)"
  by (simp add: prefix_def) (metis append.assoc)

lemma dispatch_fields [simp]:
  "bus (dispatch m s) = bus s @ [m]"
  "m_vc_reply_deadline (dispatch m s) = m_vc_reply_deadline s"
  "m_pcs (dispatch m s) = m_pcs s"
  "m_state (dispatch m s) = m_state s"
  "m_requests (dispatch m s) = m_requests s"
  "m_vreq_ctr (dispatch m s) = m_vreq_ctr s"
  by (simp_all add: dispatch_def)

lemma changeLog_fields [simp]:
  "bus (changeLog n s) = bus s @ [OutLoggingControl \<lparr>lc_op = COP_REQUEST_START, lc_name = n\<rparr>]"
  "m_vc_reply_deadline (changeLog n s) = m_vc_reply_deadline s"
  "m_pcs (changeLog n s) = m_pcs s"
  "m_state (changeLog n s) = m_state s"
  "m_requests (changeLog n s) = m_requests s"
  "m_vreq_ctr (changeLog n s) = m_vreq_ctr s"
  by (simp_all add: changeLog_def Let_def)

lemma answer_fields [simp]:
  "bus (answer ty d s) = bus s @ [OutPlanControl ((m_reply s)\<lparr>pc_type := ty, pc_info := d\<rparr>)]"
  "m_vc_reply_deadline (answer ty d s) = m_vc_reply_deadline s"
  "m_pcs (answer ty d s) = m_pcs s"
  "m_state (answer ty d s) = m_state s"
  "m_requests (answer ty d s) = m_requests s"
  "m_vreq_ctr (answer ty d s) = m_vreq_ctr s"
  by (simp_all add: answer_def Let_def)

lemma onFailure_fields [simp]:
  "bus (onFailure e s) = bus s @ [OutPlanControl ((m_reply s)\<lparr>pc_type := PC_FAILURE, pc_info := e\<rparr>)]"
  "m_vc_reply_deadline (onFailure e s) = m_vc_reply_deadline s"
  "pcs_state (m_pcs (onFailure e s)) = pcs_state (m_pcs s)"
  "m_state (onFailure e s) = m_state s"
  "m_requests (onFailure e s) = m_requests s"
  "m_vreq_ctr (onFailure e s) = m_vreq_ctr s"
  by (simp_all add: onFailure_def)

lemma onSuccess_fields [simp]:
  "bus (onSuccess e s) = bus s @ [OutPlanControl ((m_reply s)\<lparr>pc_type := PC_SUCCESS, pc_info := e\<rparr>)]"
  "m_vc_reply_deadline (onSuccess e s) = m_vc_reply_deadline s"
  "pcs_state (m_pcs (onSuccess e s)) = pcs_state (m_pcs s)"
  "m_state (onSuccess e s) = m_state s"
  "m_requests (onSuccess e s) = m_requests s"
  "m_vreq_ctr (onSuccess e s) = m_vreq_ctr s"
  by (simp_all add: onSuccess_def)

lemma vehicleRequest_fields [simp]:
  "vrequests (bus (vehicleRequest X c cmd arg s)) = vrequests (bus s) + 1"
  "m_vc_reply_deadline (vehicleRequest X c cmd arg s) = clk_get c + c_vc_reply_timeout"
  "m_pcs (vehicleRequest X c cmd arg s) = m_pcs s"
  "m_state (vehicleRequest X c cmd arg s) = m_state s"
  "m_requests (vehicleRequest X c cmd arg s) = m_requests s"
  "m_vreq_ctr (vehicleRequest X c cmd arg s) = m_vreq_ctr s + 1"
  by (simp_all add: vehicleRequest_def Let_def split: option.splits)

lemma vehicleRequest_prefix [simp]:
  "prefix xs (bus s) \<Longrightarrow> prefix xs (bus (vehicleRequest X c cmd arg s))"
  by (simp add: vehicleRequest_def Let_def split: option.splits)

lemma changeMode_fields [simp]:
  "vrequests (bus (changeMode X c st e nid m s)) = vrequests (bus s)"
  "m_vc_reply_deadline (changeMode X c st e nid m s) = m_vc_reply_deadline s"
  "pcs_state (m_pcs (changeMode X c st e nid m s)) = st"
  "m_state (changeMode X c st e nid m s) = m_state s"
  "m_requests (changeMode X c st e nid m s) = m_requests s"
  "m_vreq_ctr (changeMode X c st e nid m s) = m_vreq_ctr s"
  by (simp_all add: changeMode_def Let_def mode_simps split: option.splits)

lemma changeMode_prefix [simp]:
  "prefix xs (bus s) \<Longrightarrow> prefix xs (bus (changeMode X c st e nid m s))"
  by (simp add: changeMode_def Let_def mode_simps split: option.splits)

lemma changeMode0_fields [simp]:
  "vrequests (bus (changeMode0 X c st e s)) = vrequests (bus s)"
  "m_vc_reply_deadline (changeMode0 X c st e s) = m_vc_reply_deadline s"
  "pcs_state (m_pcs (changeMode0 X c st e s)) = st"
  "m_state (changeMode0 X c st e s) = m_state s"
  "m_requests (changeMode0 X c st e s) = m_requests s"
  "m_vreq_ctr (changeMode0 X c st e s) = m_vreq_ctr s"
  by (simp_all add: changeMode0_def)

lemma changeMode0_prefix [simp]:
  "prefix xs (bus s) \<Longrightarrow> prefix xs (bus (changeMode0 X c st e s))"
  by (simp add: changeMode0_def)

lemma startManeuver_fields [simp]:
  "vrequests (bus (startManeuver X c pman s)) = vrequests (bus s) + (if pman = None then 0 else 1)"
  "pcs_state (m_pcs (startManeuver X c pman s)) = (if pman = None then PCS_READY else PCS_EXECUTING)"
  "m_state (startManeuver X c pman s) = m_state s"
  "m_requests (startManeuver X c pman s) = m_requests s"
  by (simp_all add: startManeuver_def Let_def split: option.splits)

lemma startManeuver_prefix [simp]:
  "prefix xs (bus s) \<Longrightarrow> prefix xs (bus (startManeuver X c pman s))"
  by (simp add: startManeuver_def Let_def split: option.splits)

section \<open>The concrete task\<close>

lemma setInitialState_fields:
  "pcs_state (m_pcs (setInitialState c s)) = PCS_READY"
  "pcs_last_outcome (m_pcs (setInitialState c s)) = LPO_NONE"
  "pcs_plan_progress (m_pcs (setInitialState c s)) = - 1"
  "m_vreq_ctr (setInitialState c s) = 0"
  "m_vc_reply_deadline (setInitialState c s) = - 1"
  "m_last_vstate (setInitialState c s) = clk_get c"
  "m_requests (setInitialState c s) = m_requests s"
  "entity_state (setInitialState c s) = entity_state s"
  "system_id (setInitialState c s) = system_id s"
  "entity_id (setInitialState c s) = entity_id s"
  "m_plan (setInitialState c s) = m_plan s"
  "m_spec (setInitialState c s) = m_spec s"
  "m_supported_maneuvers (setInitialState c s) = m_supported_maneuvers s"
  "m_cinfo (setInitialState c s) = m_cinfo s"
  "m_imu_enabled (setInitialState c s) = m_imu_enabled s"
  "m_state (setInitialState c s) = m_state s"
  "m_db (setInitialState c s) = m_db s"
  "m_mh (setInitialState c s) = m_mh s"
  by (simp_all add: setInitialState_def Let_def dispatch_def)

lemma task_ready_fields:
  "pcs_state (m_pcs task_ready) = PCS_READY"
  "pcs_last_outcome (m_pcs task_ready) = LPO_NONE"
  "pcs_plan_progress (m_pcs task_ready) = - 1"
  "m_vreq_ctr task_ready = 0"
  "m_vc_reply_deadline task_ready = - 1"
  "m_last_vstate task_ready = 0"
  "m_requests task_ready = []"
  "entity_state task_ready = ESTA_NORMAL"
  "system_id task_ready = 30"
  "entity_id task_ready = 7"
  "m_plan task_ready = 0"
  "m_supported_maneuvers task_ready = {}"
  "m_cinfo task_ready = []"
  "m_imu_enabled task_ready = False"
  "m_db task_ready = []"
  "m_mh task_ready = []"
  by (simp_all add: task_ready_def setInitialState_fields clock_at_def task0_def)

text \<open>The state that the request to start \<open>p1\<close> leaves.\<close>

lemma task_pending_value:
  "task_pending =
     \<lparr>m_plan = 1,
      m_pcs = \<lparr>pcs_timestamp = 1000, pcs_state = PCS_EXECUTING, pcs_plan_id = ''p1'',
               pcs_plan_eta = 0, pcs_plan_progress = - 1, pcs_man_id = ''A'', pcs_man_type = 450,
               pcs_man_eta = 0, pcs_last_outcome = LPO_NONE\<rparr>,
      m_reply = \<lparr>pc_source = 0, pc_source_entity = 0, pc_destination = 1,
                 pc_destination_entity = 2, pc_type = PC_SUCCESS, pc_op = PC_START,
                 pc_request_id = 10, pc_plan_id = ''p1'', pc_flags = 0,
                 pc_arg = Some (PlanStatisticsMsg
                            \<lparr>ps_plan_id = ''p1'', ps_properties = [], ps_durations = [],
                             ps_distances = [], ps_fuel = []\<rparr>),
                 pc_info = ''A: executing maneuver''\<rparr>,
      m_last_event = ''A: executing maneuver'',
      m_vreq_ctr = 1,
      m_vc_reply_deadline = 5 / 2,
      m_last_vstate = 0,
      m_vc = \<lparr>vc_destination = 0, vc_destination_entity = 0, vc_type = VC_REQUEST,
              vc_request_id = 1, vc_command = VC_EXEC_MANEUVER, vc_maneuver = None,
              vc_calib_time = 0, vc_info = []\<rparr>,
      m_spec = plan_p1\<lparr>spec_source_entity := 7\<rparr>,
      m_supported_maneuvers = {},
      m_db = [(DBDT_PLAN, ''p1'', PlanSpecificationMsg (plan_p1\<lparr>spec_source_entity := 7\<rparr>))],
      m_lc = \<lparr>lc_op = COP_REQUEST_START, lc_name = ''p1''\<rparr>,
      m_state = \<lparr>es_source = 0, es_lat = 0, es_lon = 0, es_height = 0, es_x = 0, es_y = 0,
                 es_z = 0\<rparr>,
      m_mcs = \<lparr>mcs_state = MCS_STOPPED, mcs_eta = 0, mcs_info = []\<rparr>,
      m_cinfo = [],
      m_eid_imu = 0,
      m_imu_enabled = False,
      m_requests = [],
      m_plan_ref = 1,
      m_mh = [(1, plan_p1\<lparr>spec_source_entity := 7\<rparr>)],
      m_args = \<lparr>arg_progress = False, arg_fpredict = True, arg_speriod = 1 / 3,
                arg_calibration_time = 10, arg_do_calib = True, arg_actfail_abort = False,
                arg_sk_calib = False, arg_sk_radius = 20, arg_sk_rpm = 1600,
                arg_label_imu = ''IMU''\<rparr>,
      system_id = 30,
      entity_id = 7,
      entity_state = ESTA_NORMAL,
      entity_code = CODE_ACTIVE,
      bus = bus task_ready @
        [OutPlanControlState
           \<lparr>pcs_timestamp = 1000, pcs_state = PCS_INITIALIZING, pcs_plan_id = [],
            pcs_plan_eta = 0, pcs_plan_progress = - 1, pcs_man_id = [], pcs_man_type = 65535,
            pcs_man_eta = 0, pcs_last_outcome = LPO_NONE\<rparr>,
         OutPlanControl
           \<lparr>pc_source = 0, pc_source_entity = 0, pc_destination = 1,
            pc_destination_entity = 2, pc_type = PC_SUCCESS, pc_op = PC_START,
            pc_request_id = 10, pc_plan_id = ''p1'', pc_flags = 0,
            pc_arg = Some (PlanStatisticsMsg
                       \<lparr>ps_plan_id = ''p1'', ps_properties = [], ps_durations = [],
                        ps_distances = [], ps_fuel = []\<rparr>),
            pc_info = ''plan loaded''\<rparr>,
         OutLoggingControl \<lparr>lc_op = COP_REQUEST_START, lc_name = ''p1''\<rparr>,
         OutPlanSpecification (plan_p1\<lparr>spec_source_entity := 7\<rparr>),
         OutVehicleCommand
           \<lparr>vc_destination = 0, vc_destination_entity = 0, vc_type = VC_REQUEST,
            vc_request_id = 1, vc_command = VC_EXEC_MANEUVER,
            vc_maneuver = Some \<lparr>man_plan_ref = 1, man_memento = [],
                                man_body = OtherManeuver ''Goto'' 450 ''lat=0.7;lon=-0.15''\<rparr>,
            vc_calib_time = 0, vc_info = []\<rparr>,
         OutPlanControlState
           \<lparr>pcs_timestamp = 1000, pcs_state = PCS_EXECUTING, pcs_plan_id = ''p1'',
            pcs_plan_eta = 0, pcs_plan_progress = - 1, pcs_man_id = ''A'', pcs_man_type = 450,
            pcs_man_eta = 0, pcs_last_outcome = LPO_NONE\<rparr>,
         OutPlanControl
           \<lparr>pc_source = 0, pc_source_entity = 0, pc_destination = 1,
            pc_destination_entity = 2, pc_type = PC_SUCCESS, pc_op = PC_START,
            pc_request_id = 10, pc_plan_id = ''p1'', pc_flags = 0,
            pc_arg = Some (PlanStatisticsMsg
                       \<lparr>ps_plan_id = ''p1'', ps_properties = [], ps_durations = [],
                        ps_distances = [], ps_fuel = []\<rparr>),
            pc_info = ''A: executing maneuver''\<rparr>]\<rparr>"
  by code_simp

lemma task_pending_fields:
  "pcs_state (m_pcs task_pending) = PCS_EXECUTING"
  "m_vreq_ctr task_pending = 1"
  "m_vc_reply_deadline task_pending = 5 / 2"
  "m_requests task_pending = []"
  "entity_state task_pending = ESTA_NORMAL"
  "system_id task_pending = 30"
  "entity_id task_pending = 7"
  "m_spec task_pending = plan_p1\<lparr>spec_source_entity := 7\<rparr>"
  "m_mh task_pending = [(1, plan_p1\<lparr>spec_source_entity := 7\<rparr>)]"
  "m_db task_pending
     = [(DBDT_PLAN, ''p1'', PlanSpecificationMsg (plan_p1\<lparr>spec_source_entity := 7\<rparr>))]"
  by (simp_all add: task_pending_value)

lemma vreply_fields:
  "vc_destination (vreply ty rid) = 30"
  "vc_destination_entity (vreply ty rid) = 7"
  "vc_type (vreply ty rid) = ty"
  "vc_request_id (vreply ty rid) = rid"
  "vc_command (vreply ty rid) = VC_EXEC_MANEUVER"
  by (simp_all add: vreply_def)

lemma request_fields:
  "pc_type (request op rid arg) = PC_REQUEST"
  "pc_op (request op rid arg) = op"
  "pc_arg (request op rid arg) = arg"
  "pc_request_id (request op rid arg) = rid"
  "pc_plan_id (request op rid arg) = ''p1''"
  "pc_flags (request op rid arg) = 0"
  by (simp_all add: request_def)

section \<open>Effects of loading, starting and stopping a plan\<close>

lemma parsePlan_fields [simp]:
  "vrequests (bus (snd (parsePlan X b s))) = vrequests (bus s)"
  "m_state (snd (parsePlan X b s)) = m_state s"
  "m_requests (snd (parsePlan X b s)) = m_requests s"
  "pcs_state (m_pcs (snd (parsePlan X b s))) = pcs_state (m_pcs s)"
  by (simp_all add: parsePlan_def Let_def split: prod.splits sum.splits)

lemma parsePlan_prefix [simp]:
  "prefix xs (bus s) \<Longrightarrow> prefix xs (bus (snd (parsePlan X b s)))"
  by (simp add: parsePlan_def Let_def split: prod.splits sum.splits)

lemma handleArgSpecification_fields [simp]:
  "bus (snd (snd (handleArgSpecification X sp info s))) = bus s"
  "m_state (snd (snd (handleArgSpecification X sp info s))) = m_state s"
  "m_requests (snd (snd (handleArgSpecification X sp info s))) = m_requests s"
  "pcs_state (m_pcs (snd (snd (handleArgSpecification X sp info s)))) = pcs_state (m_pcs s)"
  by (simp_all add: handleArgSpecification_def Let_def)

lemma handleArgMemento_fields [simp]:
  "vrequests (bus (snd (snd (handleArgMemento X pmem info s)))) = vrequests (bus s)"
  "m_state (snd (snd (handleArgMemento X pmem info s))) = m_state s"
  "m_requests (snd (snd (handleArgMemento X pmem info s))) = m_requests s"
  "pcs_state (m_pcs (snd (snd (handleArgMemento X pmem info s)))) = pcs_state (m_pcs s)"
  by (simp_all add: handleArgMemento_def Let_def split: prod.splits option.splits sum.splits)

lemma handleArgMemento_prefix [simp]:
  "prefix xs (bus s) \<Longrightarrow> prefix xs (bus (snd (snd (handleArgMemento X pmem info s))))"
  by (simp add: handleArgMemento_def Let_def split: prod.splits option.splits sum.splits)

lemma handleQuickPlan_fields [simp]:
  "bus (snd (snd (handleQuickPlan X ident a info s))) = bus s"
  "m_state (snd (snd (handleQuickPlan X ident a info s))) = m_state s"
  "m_requests (snd (snd (handleQuickPlan X ident a info s))) = m_requests s"
  "pcs_state (m_pcs (snd (snd (handleQuickPlan X ident a info s)))) = pcs_state (m_pcs s)"
  by (simp_all add: handleQuickPlan_def Let_def split: option.splits)

lemma parseArg_fields [simp]:
  "vrequests (bus (snd (snd (parseArg X ident arg info s)))) = vrequests (bus s)"
  "m_state (snd (snd (parseArg X ident arg info s))) = m_state s"
  "m_requests (snd (snd (parseArg X ident arg info s))) = m_requests s"
  "pcs_state (m_pcs (snd (snd (parseArg X ident arg info s)))) = pcs_state (m_pcs s)"
  by (simp_all add: parseArg_def Let_def split: prod.splits option.splits message.splits)

lemma parseArg_prefix [simp]:
  "prefix xs (bus s) \<Longrightarrow> prefix xs (bus (snd (snd (parseArg X ident arg info s))))"
  by (simp add: parseArg_def Let_def split: prod.splits option.splits message.splits)

lemma loadPlan_fields [simp]:
  "vrequests (bus (snd (loadPlan X c pid arg b s))) = vrequests (bus s)"
  "m_state (snd (loadPlan X c pid arg b s)) = m_state s"
  "m_requests (snd (loadPlan X c pid arg b s)) = m_requests s"
  by (simp_all add: loadPlan_def Let_def case_prod_beta bool.case_eq_if)

lemma loadPlan_prefix [simp]:
  "prefix xs (bus s) \<Longrightarrow> prefix xs (bus (snd (loadPlan X c pid arg b s)))"
  by (simp add: loadPlan_def Let_def case_prod_beta bool.case_eq_if)

lemma getPlan_fields [simp]:
  "vrequests (bus (getPlan s)) = vrequests (bus s)"
  "m_state (getPlan s) = m_state s"
  "m_requests (getPlan s) = m_requests s"
  by (simp_all add: getPlan_def Let_def)

lemma getPlan_prefix [simp]:
  "prefix xs (bus s) \<Longrightarrow> prefix xs (bus (getPlan s))"
  by (simp add: getPlan_def Let_def)

lemma stopPlan_fields [simp]:
  "vrequests (bus (snd (stopPlan X c b s))) =
     vrequests (bus s) + (if (initMode s \<or> execMode s) \<and> \<not> b then 1 else 0)"
  "m_state (snd (stopPlan X c b s)) = m_state s"
  "m_requests (snd (stopPlan X c b s)) = m_requests s"
  by (simp_all add: stopPlan_def Let_def)

lemma stopPlan_prefix [simp]:
  "prefix xs (bus s) \<Longrightarrow> prefix xs (bus (snd (stopPlan X c b s)))"
  by (simp add: stopPlan_def Let_def)

lemma startCalibration_fields [simp]:
  "vrequests (bus (snd (startCalibration X c s))) = vrequests (bus s) + (if blockedMode s then 0 else 1)"
  "fst (startCalibration X c s) = (\<not> blockedMode s)"
  "m_state (snd (startCalibration X c s)) = m_state s"
  "m_requests (snd (startCalibration X c s)) = m_requests s"
  by (simp_all add: startCalibration_def Let_def)

lemma startCalibration_prefix [simp]:
  "prefix xs (bus s) \<Longrightarrow> prefix xs (bus (snd (startCalibration X c s)))"
  by (simp add: startCalibration_def Let_def)

text \<open>Pushing an observation of the task through the control structure of a handler.\<close>

lemma push_Let: "h (Let e g) = (let x = e in h (g x))"
  by (simp add: Let_def)

lemmas push_snd = if_distrib [of snd] push_Let [of snd]
lemmas push_fst = if_distrib [of fst] push_Let [of fst]
lemmas push_m_state = if_distrib [of m_state] push_Let [of m_state]
lemmas push_m_requests = if_distrib [of m_requests] push_Let [of m_requests]
lemmas push_cases = case_prod_beta bool.case_eq_if option.case_eq_if sum.case_eq_if

lemma startPlan_frame [simp]:
  "m_state (snd (startPlan X c pid arg flags s)) = m_state s"
  "m_requests (snd (startPlan X c pid arg flags s)) = m_requests s"
  by (simp_all add: startPlan_def Let_def push_cases push_snd push_m_state push_m_requests
        cong del: if_weak_cong split del: if_split)

lemma push_prefix:
  "prefix xs (bus (if b then t else u)) = (if b then prefix xs (bus t) else prefix xs (bus u))"
  "prefix xs (bus (Let e g)) = (let x = e in prefix xs (bus (g x)))"
  by (simp_all add: Let_def)

lemma push_vrequests:
  "vrequests (bus (if b then t else u)) = (if b then vrequests (bus t) else vrequests (bus u))"
  "vrequests (bus (Let e g)) = (let x = e in vrequests (bus (g x)))"
  by (simp_all add: Let_def)

lemma push_pcs_state:
  "pcs_state (m_pcs (if b then t else u)) = (if b then pcs_state (m_pcs t) else pcs_state (m_pcs u))"
  "pcs_state (m_pcs (Let e g)) = (let x = e in pcs_state (m_pcs (g x)))"
  by (simp_all add: Let_def)

lemma startPlan_prefix [simp]:
  "prefix xs (bus s) \<Longrightarrow> prefix xs (bus (snd (startPlan X c pid arg flags s)))"
  by (simp add: startPlan_def Let_def push_cases push_snd push_prefix
        cong del: if_weak_cong split del: if_split)

text \<open>
  Starting a plan dispatches at most one vehicle request, and none when it returns
  false: then the caller sends the request to stop the maneuver.
\<close>

text \<open>
  Starting a plan dispatches at most one vehicle request, and none when it returns
  false: then the caller sends the request to stop the maneuver.
\<close>

lemma startPlan_vrequests:
  "vrequests (bus (snd (startPlan X c pid arg flags s)))
     + (if fst (startPlan X c pid arg flags s) then 0 else 1) \<le> vrequests (bus s) + 1"
proof -
  obtain stopped s0 where sp: "stopPlan X c True s = (stopped, s0)"
    by (cases "stopPlan X c True s")
  define s1 where "s1 = changeMode0 X c PCS_INITIALIZING (''plan initializing: '' @ pid) s0"
  obtain ok s2 where lp: "loadPlan X c pid arg True s1 = (ok, s2)"
    by (cases "loadPlan X c pid arg True s1")
  note s1 = s1_def [symmetric, simplified]
  have v0: "vrequests (bus s0) = vrequests (bus s)"
    using stopPlan_fields(1) [of X c True s] by (simp add: sp)
  have v1: "vrequests (bus s1) = vrequests (bus s)"
    by (simp add: s1_def v0)
  have v2: "vrequests (bus s2) = vrequests (bus s)"
    using loadPlan_fields(1) [of X c pid arg True s1] by (simp add: lp v1)
  show ?thesis
  proof (cases ok)
    case False
    then have "startPlan X c pid arg flags s = (stopped, s2)"
      by (simp add: startPlan_def sp s1 lp)
    then show ?thesis by (simp add: v2)
  next
    case True
    then show ?thesis
      by (simp add: startPlan_def sp s1 lp Let_def push_cases push_snd push_fst
            push_vrequests push_pcs_state mode_simps v2 cong del: if_weak_cong)
  qed
qed

lemma processRequest_frame [simp]:
  "m_state (processRequest X c pc s) = m_state s"
  "m_requests (processRequest X c pc s) = m_requests s"
  by (simp_all add: processRequest_def Let_def push_cases push_m_state push_m_requests
        split: pc_op_enum.splits)

lemma processRequest_prefix [simp]:
  "prefix xs (bus s) \<Longrightarrow> prefix xs (bus (processRequest X c pc s))"
  by (simp add: processRequest_def Let_def push_cases push_prefix split: pc_op_enum.splits)

lemma processRequest_vrequests:
  "vrequests (bus (processRequest X c pc s)) \<le> vrequests (bus s) + 1"
proof -
  let ?s1 = "s\<lparr>m_reply := (m_reply s)\<lparr>pc_destination := pc_source pc,
                                       pc_destination_entity := pc_source_entity pc,
                                       pc_request_id := pc_request_id pc,
                                       pc_op := pc_op pc,
                                       pc_plan_id := pc_plan_id pc\<rparr>\<rparr>"
  have sp: "vrequests (bus (snd (startPlan X c (pc_plan_id pc) (pc_arg pc) (pc_flags pc) ?s1)))
              + (if fst (startPlan X c (pc_plan_id pc) (pc_arg pc) (pc_flags pc) ?s1) then 0 else 1)
            \<le> vrequests (bus s) + 1"
    using startPlan_vrequests [of X c "pc_plan_id pc" "pc_arg pc" "pc_flags pc" ?s1] by simp
  show ?thesis
  proof (cases "entity_state s = ESTA_NORMAL")
    case False
    then show ?thesis by (simp add: processRequest_def Let_def)
  next
    case True
    show ?thesis
    proof (cases "pc_op pc")
      case PC_START
      with True sp show ?thesis
        by (simp add: processRequest_def Let_def push_cases split: if_splits)
    next
      case PC_STOP
      with True show ?thesis by (simp add: processRequest_def Let_def)
    next
      case PC_LOAD
      with True show ?thesis by (simp add: processRequest_def Let_def)
    next
      case PC_GET
      with True show ?thesis by (simp add: processRequest_def Let_def)
    next
      case (PC_OP_OTHER x)
      with True show ?thesis by (simp add: processRequest_def Let_def)
    qed
  qed
qed

section \<open>Effects of the handlers\<close>

lemma push_deadline:
  "m_vc_reply_deadline (if b then t else u) = (if b then m_vc_reply_deadline t else m_vc_reply_deadline u)"
  "m_vc_reply_deadline (Let e g) = (let x = e in m_vc_reply_deadline (g x))"
  by (simp_all add: Let_def)

lemma onVehicleService_frame [simp]:
  "m_state (onVehicleService X c vs s) = m_state s"
  by (simp add: onVehicleService_def Let_def push_cases push_m_state cong del: if_weak_cong
        split: pcs_state_enum.splits)

lemma onVehicleService_prefix [simp]:
  "prefix xs (bus s) \<Longrightarrow> prefix xs (bus (onVehicleService X c vs s))"
  by (simp add: onVehicleService_def Let_def push_cases push_prefix cong del: if_weak_cong
        split: pcs_state_enum.splits)

lemma onVehicleService_pending:
  "pendingReply s \<Longrightarrow> vrequests (bus (onVehicleService X c vs s)) = vrequests (bus s)"
  "pendingReply s \<Longrightarrow> m_vc_reply_deadline (onVehicleService X c vs s) = m_vc_reply_deadline s"
  by (simp_all add: onVehicleService_def Let_def push_cases split: pcs_state_enum.splits)

lemma onVehicleService_bound:
  "vrequests (bus (onVehicleService X c vs s)) + (if initMode (onVehicleService X c vs s) then 1 else 0)
     \<le> vrequests (bus s) + 1"
  by (simp add: onVehicleService_def Let_def push_cases mode_simps split: pcs_state_enum.splits)

lemma onVehicleManeuver_frame [simp]:
  "m_state (onVehicleManeuver X c vs s) = m_state s"
  by (simp add: onVehicleManeuver_def Let_def push_cases push_m_state cong del: if_weak_cong)

lemma onVehicleManeuver_prefix [simp]:
  "prefix xs (bus s) \<Longrightarrow> prefix xs (bus (onVehicleManeuver X c vs s))"
  by (simp add: onVehicleManeuver_def Let_def push_cases push_prefix cong del: if_weak_cong)

lemma onVehicleManeuver_pending:
  "pendingReply s \<Longrightarrow> onVehicleManeuver X c vs s = s"
  by (simp add: onVehicleManeuver_def)

lemma onVehicleManeuver_bound:
  "vrequests (bus (onVehicleManeuver X c vs s)) + (if initMode (onVehicleManeuver X c vs s) then 1 else 0)
     \<le> vrequests (bus s) + 1"
  by (simp add: onVehicleManeuver_def Let_def push_cases mode_simps)

lemma onVehicleError_frame [simp]:
  "m_state (onVehicleError X c vs s) = m_state s"
  by (simp add: onVehicleError_def Let_def push_cases push_m_state cong del: if_weak_cong)

lemma onVehicleError_prefix [simp]:
  "prefix xs (bus s) \<Longrightarrow> prefix xs (bus (onVehicleError X c vs s))"
  by (simp add: onVehicleError_def Let_def push_cases push_prefix cong del: if_weak_cong)

lemma onVehicleError_pending:
  "pendingReply s \<Longrightarrow> vrequests (bus (onVehicleError X c vs s)) = vrequests (bus s)"
  "pendingReply s \<Longrightarrow> m_vc_reply_deadline (onVehicleError X c vs s) = m_vc_reply_deadline s"
  by (simp_all add: onVehicleError_def Let_def pendingReply_def)

lemma onVehicleError_bound:
  "vrequests (bus (onVehicleError X c vs s)) + (if initMode (onVehicleError X c vs s) then 1 else 0)
     \<le> vrequests (bus s) + 1"
  by (simp add: onVehicleError_def Let_def push_cases mode_simps)

text \<open>The part of \<open>consume(VehicleState)\<close> after the switch on the mode of the vehicle.\<close>

lemma consume_VehicleState_unfold:
  "consume_VehicleState X c vs s =
     (if entity_state s = ESTA_BOOT then s
      else
        (let s2 = (case vs_op_mode vs of
                     VS_SERVICE \<Rightarrow> onVehicleService X c vs (s\<lparr>m_last_vstate := clk_get c\<rparr>)
                   | VS_ERROR \<Rightarrow> onVehicleError X c vs (s\<lparr>m_last_vstate := clk_get c\<rparr>)
                   | VS_BOOT \<Rightarrow> onVehicleError X c vs (s\<lparr>m_last_vstate := clk_get c\<rparr>)
                   | VS_MANEUVER \<Rightarrow> onVehicleManeuver X c vs (s\<lparr>m_last_vstate := clk_get c\<rparr>)
                   | _ \<Rightarrow> s\<lparr>m_last_vstate := clk_get c\<rparr>)
         in if initMode s2
            then
              (let s3 = s2\<lparr>m_plan := p_updateCalibration X (m_plan s2) vs\<rparr>
               in if p_isCalibrationDone X (m_plan s3)
                  then (if vs_op_mode vs = VS_CALIBRATION \<and> \<not> pendingReply s3
                        then (case p_loadStartManeuver X (m_plan s3) (m_spec s3) of
                                (pman, p') \<Rightarrow> startManeuver X c pman (s3\<lparr>m_plan := p'\<rparr>))
                        else s3)
                  else if p_hasCalibrationFailed X (m_plan s3)
                  then (let s4 = onFailure (p_getCalibrationInfo X (m_plan s3)) s3;
                            s5 = s4\<lparr>m_reply := (m_reply s4)\<lparr>pc_plan_id := spec_plan_id (m_spec s4)\<rparr>\<rparr>
                        in changeMode0 X c PCS_READY (p_getCalibrationInfo X (m_plan s5)) s5)
                  else s3)
            else s2))"
  by (simp add: consume_VehicleState_def Let_def)

lemma switch_facts:
  fixes X c vs s
  defines "s2 \<equiv> (case vs_op_mode vs of
                     VS_SERVICE \<Rightarrow> onVehicleService X c vs (s\<lparr>m_last_vstate := clk_get c\<rparr>)
                   | VS_ERROR \<Rightarrow> onVehicleError X c vs (s\<lparr>m_last_vstate := clk_get c\<rparr>)
                   | VS_BOOT \<Rightarrow> onVehicleError X c vs (s\<lparr>m_last_vstate := clk_get c\<rparr>)
                   | VS_MANEUVER \<Rightarrow> onVehicleManeuver X c vs (s\<lparr>m_last_vstate := clk_get c\<rparr>)
                   | _ \<Rightarrow> s\<lparr>m_last_vstate := clk_get c\<rparr>)"
  shows "m_state s2 = m_state s"
    and "prefix xs (bus s) \<Longrightarrow> prefix xs (bus s2)"
    and "vrequests (bus s2) + (if initMode s2 then 1 else 0) \<le> vrequests (bus s) + 1"
    and "pendingReply s \<Longrightarrow> vrequests (bus s2) = vrequests (bus s)"
    and "pendingReply s \<Longrightarrow> pendingReply s2"
proof -
  let ?s1 = "s\<lparr>m_last_vstate := clk_get c\<rparr>"
  have p: "pendingReply ?s1 = pendingReply s" "vrequests (bus ?s1) = vrequests (bus s)"
    by (simp_all add: pendingReply_def)
  show "m_state s2 = m_state s"
    by (simp add: s2_def split: vs_op_mode_enum.splits)
  show "prefix xs (bus s) \<Longrightarrow> prefix xs (bus s2)"
    by (simp add: s2_def split: vs_op_mode_enum.splits)
  show "vrequests (bus s2) + (if initMode s2 then 1 else 0) \<le> vrequests (bus s) + 1"
    using onVehicleService_bound [of X c vs ?s1] onVehicleError_bound [of X c vs ?s1]
      onVehicleManeuver_bound [of X c vs ?s1]
    by (simp add: s2_def split: vs_op_mode_enum.splits if_splits)
  show "pendingReply s \<Longrightarrow> vrequests (bus s2) = vrequests (bus s)"
    using onVehicleService_pending(1) [of ?s1 X c vs] onVehicleError_pending(1) [of ?s1 X c vs]
      onVehicleManeuver_pending [of ?s1 X c vs] p
    by (simp add: s2_def split: vs_op_mode_enum.splits)
  show "pendingReply s \<Longrightarrow> pendingReply s2"
    using onVehicleService_pending(2) [of ?s1 X c vs] onVehicleError_pending(2) [of ?s1 X c vs]
      onVehicleManeuver_pending [of ?s1 X c vs] p
    by (simp add: s2_def pendingReply_def split: vs_op_mode_enum.splits)
qed

lemma consume_VehicleState_facts:
  "m_state (consume_VehicleState X c vs s) = m_state s"
  "prefix xs (bus s) \<Longrightarrow> prefix xs (bus (consume_VehicleState X c vs s))"
  "vrequests (bus (consume_VehicleState X c vs s)) \<le> vrequests (bus s) + 1"
  "pendingReply s \<Longrightarrow> vrequests (bus (consume_VehicleState X c vs s)) = vrequests (bus s)"
proof -
  define s2 where "s2 = (case vs_op_mode vs of
                     VS_SERVICE \<Rightarrow> onVehicleService X c vs (s\<lparr>m_last_vstate := clk_get c\<rparr>)
                   | VS_ERROR \<Rightarrow> onVehicleError X c vs (s\<lparr>m_last_vstate := clk_get c\<rparr>)
                   | VS_BOOT \<Rightarrow> onVehicleError X c vs (s\<lparr>m_last_vstate := clk_get c\<rparr>)
                   | VS_MANEUVER \<Rightarrow> onVehicleManeuver X c vs (s\<lparr>m_last_vstate := clk_get c\<rparr>)
                   | _ \<Rightarrow> s\<lparr>m_last_vstate := clk_get c\<rparr>)"
  note sf = switch_facts [where X = X and c = c and vs = vs and s = s, folded s2_def]
  note u = consume_VehicleState_unfold [where X = X and c = c and vs = vs and s = s, folded s2_def]
  show "m_state (consume_VehicleState X c vs s) = m_state s"
    using sf(1) by (simp add: u Let_def push_cases push_m_state cong del: if_weak_cong)
  show "prefix xs (bus s) \<Longrightarrow> prefix xs (bus (consume_VehicleState X c vs s))"
    using sf(2) [where xs = xs] by (simp add: u Let_def push_cases push_prefix cong del: if_weak_cong)
  show "vrequests (bus (consume_VehicleState X c vs s)) \<le> vrequests (bus s) + 1"
    using sf(3) by (simp add: u Let_def push_cases push_vrequests split: if_splits)
  show "pendingReply s \<Longrightarrow> vrequests (bus (consume_VehicleState X c vs s)) = vrequests (bus s)"
    using sf(4) sf(5) by (simp add: u Let_def push_cases push_vrequests pendingReply_def)
qed

lemma consume_EntityActivationState_facts:
  "m_state (consume_EntityActivationState X c msg s) = m_state s"
  "prefix xs (bus s) \<Longrightarrow> prefix xs (bus (consume_EntityActivationState X c msg s))"
  "vrequests (bus (consume_EntityActivationState X c msg s)) \<le> vrequests (bus s) + 1"
  "pendingReply s \<Longrightarrow>
     vrequests (bus (consume_EntityActivationState X c msg s)) = vrequests (bus s)"
  by (simp_all add: consume_EntityActivationState_def Let_def pendingReply_def
        split: option.splits prod.splits bool.splits)

lemma consume_VehicleCommand_facts:
  "m_state (consume_VehicleCommand X c vc s) = m_state s"
  "prefix xs (bus s) \<Longrightarrow> prefix xs (bus (consume_VehicleCommand X c vc s))"
  "vrequests (bus (consume_VehicleCommand X c vc s)) = vrequests (bus s)"
  by (simp_all add: consume_VehicleCommand_def Let_def)

lemma consume_PlanControl_facts:
  "m_state (consume_PlanControl X c pc s) = m_state s"
  "prefix xs (bus s) \<Longrightarrow> prefix xs (bus (consume_PlanControl X c pc s))"
  "vrequests (bus (consume_PlanControl X c pc s)) \<le> vrequests (bus s) + 1"
  "pendingReply s \<Longrightarrow> bus (consume_PlanControl X c pc s) = bus s"
proof -
  show "m_state (consume_PlanControl X c pc s) = m_state s"
    by (simp add: consume_PlanControl_def Let_def split: list.splits)
  show "prefix xs (bus s) \<Longrightarrow> prefix xs (bus (consume_PlanControl X c pc s))"
    by (simp add: consume_PlanControl_def Let_def split: list.splits)
  show "pendingReply s \<Longrightarrow> bus (consume_PlanControl X c pc s) = bus s"
    by (simp add: consume_PlanControl_def)
  show "vrequests (bus (consume_PlanControl X c pc s)) \<le> vrequests (bus s) + 1"
  proof (cases "m_requests s")
    case Nil
    then show ?thesis
      using processRequest_vrequests [of X c pc s] by (simp add: consume_PlanControl_def)
  next
    case (Cons front rest)
    then show ?thesis
      using processRequest_vrequests [of X c front "s\<lparr>m_requests := m_requests s @ [pc]\<rparr>"]
      by (simp add: consume_PlanControl_def Let_def)
  qed
qed

section \<open>Effects of the main loop\<close>

lemma replies_simps [simp]:
  "filter is_plan_control (xs @ [OutPlanControlState p]) = filter is_plan_control xs"
  "filter is_plan_control (xs @ [OutLoggingControl l]) = filter is_plan_control xs"
  by simp_all

lemma changeMode_replies [simp]:
  "filter is_plan_control (bus (changeMode X c st e nid m s)) = filter is_plan_control (bus s)"
  "last (bus (changeMode X c st e nid m s)) = OutPlanControlState (m_pcs (changeMode X c st e nid m s))"
  "m_spec (changeMode X c st e nid m s) = m_spec s"
  "m_reply (changeMode X c st e nid m s) = m_reply s"
  "entity_state (changeMode X c st e nid m s) = entity_state s"
  "entity_id (changeMode X c st e nid m s) = entity_id s"
  by (simp_all add: changeMode_def Let_def mode_simps changeLog_def dispatch_def split: option.splits)

lemma changeMode0_replies [simp]:
  "filter is_plan_control (bus (changeMode0 X c st e s)) = filter is_plan_control (bus s)"
  "last (bus (changeMode0 X c st e s)) = OutPlanControlState (m_pcs (changeMode0 X c st e s))"
  "m_spec (changeMode0 X c st e s) = m_spec s"
  "m_reply (changeMode0 X c st e s) = m_reply s"
  "entity_state (changeMode0 X c st e s) = entity_state s"
  "entity_id (changeMode0 X c st e s) = entity_id s"
  by (simp_all add: changeMode0_def)

lemma reportProgress_fields [simp]:
  "bus (reportProgress X s) = bus s"
  "m_state (reportProgress X s) = m_state s"
  "m_requests (reportProgress X s) = m_requests s"
  "m_vc_reply_deadline (reportProgress X s) = m_vc_reply_deadline s"
  "m_vreq_ctr (reportProgress X s) = m_vreq_ctr s"
  "pcs_state (m_pcs (reportProgress X s)) = pcs_state (m_pcs s)"
  by (simp_all add: reportProgress_def Let_def split: prod.splits)

lemma onMain_report_fields [simp]:
  "vrequests (bus (onMain_report X rd s)) = vrequests (bus s)"
  "filter is_plan_control (bus (onMain_report X rd s)) = filter is_plan_control (bus s)"
  "m_state (onMain_report X rd s) = m_state s"
  "m_requests (onMain_report X rd s) = m_requests s"
  "m_vc_reply_deadline (onMain_report X rd s) = m_vc_reply_deadline s"
  "m_vreq_ctr (onMain_report X rd s) = m_vreq_ctr s"
  by (simp_all add: onMain_report_def Let_def)

lemma onMain_report_prefix [simp]:
  "prefix xs (bus s) \<Longrightarrow> prefix xs (bus (onMain_report X rd s))"
  by (simp add: onMain_report_def Let_def)

lemma onMain_vstate_fields [simp]:
  "vrequests (bus (onMain_vstate X c s)) = vrequests (bus s)"
  "filter is_plan_control (bus (onMain_vstate X c s)) = filter is_plan_control (bus s)"
  "m_state (onMain_vstate X c s) = m_state s"
  "m_requests (onMain_vstate X c s) = m_requests s"
  "m_vc_reply_deadline (onMain_vstate X c s) = m_vc_reply_deadline s"
  "m_vreq_ctr (onMain_vstate X c s) = m_vreq_ctr s"
  by (simp_all add: onMain_vstate_def Let_def)

lemma onMain_vstate_prefix [simp]:
  "prefix xs (bus s) \<Longrightarrow> prefix xs (bus (onMain_vstate X c s))"
  by (simp add: onMain_vstate_def Let_def)

lemma processRequest_vrequests_Suc:
  "vrequests (bus (processRequest X c pc s)) \<le> Suc (vrequests (bus s))"
  using processRequest_vrequests [of X c pc s] by simp

lemma onMain_requests_facts:
  "m_state (onMain_requests X c s) = m_state s"
  "prefix xs (bus s) \<Longrightarrow> prefix xs (bus (onMain_requests X c s))"
  "vrequests (bus (onMain_requests X c s)) \<le> vrequests (bus s) + 1"
  "pendingReply s \<Longrightarrow> onMain_requests X c s = s"
  by (simp_all add: onMain_requests_def Let_def processRequest_vrequests_Suc split: list.splits)

lemma onMain_reply_fields [simp]:
  "vrequests (bus (onMain_reply X c s)) = vrequests (bus s)"
  "filter is_plan_control (bus (onMain_reply X c s)) = filter is_plan_control (bus s)"
  "m_state (onMain_reply X c s) = m_state s"
  by (simp_all add: onMain_reply_def Let_def)

lemma onMain_reply_prefix [simp]:
  "prefix xs (bus s) \<Longrightarrow> prefix xs (bus (onMain_reply X c s))"
  by (simp add: onMain_reply_def Let_def)

text \<open>What the reply timeout does, when the deadline of a pending request has passed.\<close>

lemma onMain_reply_timeout:
  assumes "pendingReply s" and "m_vc_reply_deadline s \<le> clk_get c"
  shows "pcs_state (m_pcs (onMain_reply X c s)) = PCS_READY"
    and "m_requests (onMain_reply X c s) = []"
    and "m_vreq_ctr (onMain_reply X c s) = m_vreq_ctr s + 1"
    and "m_vc_reply_deadline (onMain_reply X c s) = - 1"
    and "last (bus (onMain_reply X c s)) = OutPlanControlState (m_pcs (onMain_reply X c s))"
  using assms by (simp_all add: onMain_reply_def Let_def pendingReply_def)

lemma onMain_pass_facts:
  "m_state (onMain_pass X c rd s) = m_state s"
  "prefix xs (bus s) \<Longrightarrow> prefix xs (bus (onMain_pass X c rd s))"
  "vrequests (bus (onMain_pass X c rd s)) \<le> vrequests (bus s) + 1"
  "pendingReply s \<Longrightarrow> vrequests (bus (onMain_pass X c rd s)) = vrequests (bus s)"
proof -
  let ?t = "onMain_vstate X c (onMain_report X rd s)"
  show "m_state (onMain_pass X c rd s) = m_state s"
    by (simp add: onMain_pass_def onMain_requests_facts(1))
  show "prefix xs (bus s) \<Longrightarrow> prefix xs (bus (onMain_pass X c rd s))"
    by (simp add: onMain_pass_def onMain_requests_facts(2))
  show "vrequests (bus (onMain_pass X c rd s)) \<le> vrequests (bus s) + 1"
    using onMain_requests_facts(3) [of X c ?t] by (simp add: onMain_pass_def)
  show "pendingReply s \<Longrightarrow> vrequests (bus (onMain_pass X c rd s)) = vrequests (bus s)"
    using onMain_requests_facts(4) [of ?t X c] by (simp add: onMain_pass_def pendingReply_def)
qed

lemma onMain_pass_timeout:
  assumes "pendingReply s" and "m_vc_reply_deadline s \<le> clk_get c"
  shows "pcs_state (m_pcs (onMain_pass X c rd s)) = PCS_READY"
    and "m_requests (onMain_pass X c rd s) = []"
    and "m_vreq_ctr (onMain_pass X c rd s) = m_vreq_ctr s + 1"
    and "m_vc_reply_deadline (onMain_pass X c rd s) = - 1"
    and "last (bus (onMain_pass X c rd s)) = OutPlanControlState (m_pcs (onMain_pass X c rd s))"
    and "filter is_plan_control (bus (onMain_pass X c rd s)) = filter is_plan_control (bus s)"
proof -
  let ?t = "onMain_vstate X c (onMain_report X rd s)"
  have p: "pendingReply ?t" "m_vc_reply_deadline ?t \<le> clk_get c"
    using assms by (simp_all add: pendingReply_def)
  have e: "onMain_pass X c rd s = onMain_reply X c ?t"
    using onMain_requests_facts(4) [OF p(1), of X c] by (simp add: onMain_pass_def)
  show "pcs_state (m_pcs (onMain_pass X c rd s)) = PCS_READY"
    and "m_requests (onMain_pass X c rd s) = []"
    and "m_vreq_ctr (onMain_pass X c rd s) = m_vreq_ctr s + 1"
    and "m_vc_reply_deadline (onMain_pass X c rd s) = - 1"
    and "last (bus (onMain_pass X c rd s)) = OutPlanControlState (m_pcs (onMain_pass X c rd s))"
    and "filter is_plan_control (bus (onMain_pass X c rd s)) = filter is_plan_control (bus s)"
    using onMain_reply_timeout [OF p, of X] by (simp_all add: e)
qed

lemma clock_at_fields [simp]:
  "clk_get (clock_at t) = t"
  "clk_epoch (clock_at t) = 1000 + t"
  by (simp_all add: clock_at_def)

section \<open>Replies of the vehicle\<close>

text \<open>
  C4. A reply of the vehicle whose request identifier is not the current value of the
  request counter, or whose destination system or destination entity is not the
  task's, leaves the whole task as it was and so dispatches nothing.
\<close>

theorem stale_reply_ignored:
  assumes "vc_request_id vc \<noteq> m_vreq_ctr s \<or> vc_destination vc \<noteq> system_id s
           \<or> vc_destination_entity vc \<noteq> entity_id s"
  shows "consume_VehicleCommand X c vc s = s"
  using assms by (auto simp: consume_VehicleCommand_def)

theorem stale_reply_ignored_witness:
  "vc_request_id (vreply VC_SUCCESS 0) \<noteq> m_vreq_ctr task_pending
   \<and> consume_VehicleCommand stub_collab (clock_at 1) (vreply VC_SUCCESS 0) task_pending = task_pending"
proof -
  have h: "vc_request_id (vreply VC_SUCCESS 0) \<noteq> m_vreq_ctr task_pending"
    by (simp add: vreply_fields task_pending_fields)
  then show ?thesis
    using stale_reply_ignored [of "vreply VC_SUCCESS 0" task_pending stub_collab "clock_at 1"]
    by simp
qed

text \<open>
  A reply that matches the request in flight, of whatever kind, clears the deadline;
  a reply that reports progress or success changes nothing else.
\<close>

lemma consume_VehicleCommand_matched:
  assumes "vc_type vc \<noteq> VC_REQUEST" and "pendingReply s"
    and "vc_destination vc = system_id s" and "vc_destination_entity vc = entity_id s"
    and "vc_request_id vc = m_vreq_ctr s"
  shows "m_vc_reply_deadline (consume_VehicleCommand X c vc s) = - 1"
    and "vc_type vc \<noteq> VC_FAILURE \<Longrightarrow>
           consume_VehicleCommand X c vc s = s\<lparr>m_vc_reply_deadline := - 1\<rparr>"
  using assms by (auto simp: consume_VehicleCommand_def Let_def)

text \<open>
  C7, as the code has it. A reply of the vehicle that matches the request in flight
  clears the reply deadline whatever its kind: after it no reply is pending. A
  reply of kind IN_PROGRESS does that and nothing else, exactly as one of kind SUCCESS.
\<close>

theorem matched_reply_settles:
  assumes "vc_type vc \<noteq> VC_REQUEST" and "pendingReply s"
    and "vc_destination vc = system_id s" and "vc_destination_entity vc = entity_id s"
    and "vc_request_id vc = m_vreq_ctr s"
  shows "\<not> pendingReply (consume_VehicleCommand X c vc s)
         \<and> (vc_type vc = VC_IN_PROGRESS \<or> vc_type vc = VC_SUCCESS \<longrightarrow>
              consume_VehicleCommand X c vc s = s\<lparr>m_vc_reply_deadline := - 1\<rparr>)"
  using consume_VehicleCommand_matched [OF assms, of X c]
  by (auto simp: pendingReply_def)

lemma task_pending_reply1:
  "vc_type (vreply VC_IN_PROGRESS 1) \<noteq> VC_REQUEST"
  "pendingReply task_pending"
  "vc_destination (vreply VC_IN_PROGRESS 1) = system_id task_pending"
  "vc_destination_entity (vreply VC_IN_PROGRESS 1) = entity_id task_pending"
  "vc_request_id (vreply VC_IN_PROGRESS 1) = m_vreq_ctr task_pending"
  by (simp_all add: vreply_fields task_pending_fields pendingReply_def)

theorem matched_reply_settles_witness:
  "vc_type (vreply VC_IN_PROGRESS 1) \<noteq> VC_REQUEST \<and> pendingReply task_pending
   \<and> vc_destination (vreply VC_IN_PROGRESS 1) = system_id task_pending
   \<and> vc_destination_entity (vreply VC_IN_PROGRESS 1) = entity_id task_pending
   \<and> vc_request_id (vreply VC_IN_PROGRESS 1) = m_vreq_ctr task_pending
   \<and> \<not> pendingReply (consume_VehicleCommand stub_collab (clock_at 1) (vreply VC_IN_PROGRESS 1) task_pending)
   \<and> consume_VehicleCommand stub_collab (clock_at 1) (vreply VC_IN_PROGRESS 1) task_pending
       = task_pending\<lparr>m_vc_reply_deadline := - 1\<rparr>"
proof -
  note r = matched_reply_settles [OF task_pending_reply1, of stub_collab "clock_at 1"]
  from r have a: "\<not> pendingReply (consume_VehicleCommand stub_collab (clock_at 1)
                       (vreply VC_IN_PROGRESS 1) task_pending)"
    by blast
  from r have b: "consume_VehicleCommand stub_collab (clock_at 1) (vreply VC_IN_PROGRESS 1)
                    task_pending = task_pending\<lparr>m_vc_reply_deadline := - 1\<rparr>"
    by (simp add: vreply_fields)
  show ?thesis using task_pending_reply1 a b by blast
qed

text \<open>
  The claim as the specification states it fails: the request 1 is in flight with its
  deadline at 2.5, the reply IN_PROGRESS to it arrives at time 1, and afterwards the
  deadline is gone.
\<close>

theorem in_progress_keeps_deadline_counterexample:
  "\<not> (m_vc_reply_deadline (consume_VehicleCommand stub_collab (clock_at 1)
           (vreply VC_IN_PROGRESS 1) task_pending) = m_vc_reply_deadline task_pending)"
  using consume_VehicleCommand_matched(1) [OF task_pending_reply1, of stub_collab "clock_at 1"]
  by (simp add: task_pending_fields)

section \<open>Stopping when no plan runs\<close>

lemma processRequest_stop_idle:
  assumes "entity_state s = ESTA_NORMAL" and "pc_op pc = PC_STOP" and "readyMode s"
  shows "processRequest X c pc s =
           s\<lparr>m_pcs := (m_pcs s)\<lparr>pcs_last_outcome := LPO_FAILURE, pcs_plan_progress := - 1,
                                  pcs_plan_eta := 0\<rparr>,
             m_reply := (m_reply s)\<lparr>pc_destination := pc_source pc,
                                      pc_destination_entity := pc_source_entity pc,
                                      pc_request_id := pc_request_id pc,
                                      pc_op := PC_STOP,
                                      pc_plan_id := [],
                                      pc_type := PC_FAILURE,
                                      pc_info := ''no plan is running, request ignored''\<rparr>,
             bus := bus s @
               [OutPlanControl ((m_reply s)\<lparr>pc_destination := pc_source pc,
                                             pc_destination_entity := pc_source_entity pc,
                                             pc_request_id := pc_request_id pc,
                                             pc_op := PC_STOP,
                                             pc_plan_id := pc_plan_id pc,
                                             pc_type := PC_FAILURE,
                                             pc_info := ''no plan is running, request ignored''\<rparr>)]\<rparr>"
  using assms
  by (simp add: processRequest_def stopPlan_def onFailure_def answer_def dispatch_def Let_def
        mode_simps)

text \<open>
  C8, as the code has it. A PC_STOP request processed while the published state is
  READY and the entity state is normal dispatches one failure reply, with the text
  "no plan is running, request ignored", and no vehicle command. It leaves the mode,
  the reply deadline, the queue, the request counter and the plan as they were, but
  it sets the last outcome to FAILURE, the progress to -1 and the ETA to 0 in the
  PlanControlState, and overwrites the stored reply.
\<close>

theorem stop_in_ready:
  assumes "entity_state s = ESTA_NORMAL" and "pc_op pc = PC_STOP" and "readyMode s"
  shows "processRequest X c pc s =
           s\<lparr>m_pcs := (m_pcs s)\<lparr>pcs_last_outcome := LPO_FAILURE, pcs_plan_progress := - 1,
                                  pcs_plan_eta := 0\<rparr>,
             m_reply := (m_reply s)\<lparr>pc_destination := pc_source pc,
                                      pc_destination_entity := pc_source_entity pc,
                                      pc_request_id := pc_request_id pc,
                                      pc_op := PC_STOP,
                                      pc_plan_id := [],
                                      pc_type := PC_FAILURE,
                                      pc_info := ''no plan is running, request ignored''\<rparr>,
             bus := bus s @
               [OutPlanControl ((m_reply s)\<lparr>pc_destination := pc_source pc,
                                             pc_destination_entity := pc_source_entity pc,
                                             pc_request_id := pc_request_id pc,
                                             pc_op := PC_STOP,
                                             pc_plan_id := pc_plan_id pc,
                                             pc_type := PC_FAILURE,
                                             pc_info := ''no plan is running, request ignored''\<rparr>)]\<rparr>"
  using processRequest_stop_idle [OF assms] .

lemma task_ready_stop:
  "entity_state task_ready = ESTA_NORMAL"
  "pc_op (request PC_STOP 11 None) = PC_STOP"
  "readyMode task_ready"
  by (simp_all add: task_ready_fields request_fields mode_simps)

theorem stop_in_ready_witness:
  "entity_state task_ready = ESTA_NORMAL \<and> pc_op (request PC_STOP 11 None) = PC_STOP
   \<and> readyMode task_ready
   \<and> pcs_state (m_pcs (processRequest stub_collab (clock_at 1) (request PC_STOP 11 None) task_ready))
       = PCS_READY
   \<and> pcs_last_outcome (m_pcs (processRequest stub_collab (clock_at 1) (request PC_STOP 11 None)
                                 task_ready)) = LPO_FAILURE"
  using stop_in_ready [OF task_ready_stop, where X = stub_collab and c = "clock_at 1"] task_ready_stop
  by (simp add: task_ready_fields)

text \<open>
  The claim as the specification states it fails: at the start of the main loop the
  last outcome is NONE, and the refused PC_STOP request leaves it at FAILURE.
\<close>

theorem stop_in_ready_counterexample:
  "readyMode task_ready
   \<and> pcs_last_outcome (m_pcs task_ready) = LPO_NONE
   \<and> pcs_last_outcome (m_pcs (processRequest stub_collab (clock_at 1) (request PC_STOP 11 None)
                                 task_ready)) = LPO_FAILURE"
  using processRequest_stop_idle [OF task_ready_stop, where X = stub_collab and c = "clock_at 1"] task_ready_stop
  by (simp add: task_ready_fields)

section \<open>Mementos of the vehicle\<close>

lemma consume_Memento_unknown:
  "mh_processMemento (m_mh s) msg = None \<Longrightarrow> consume_Memento X msg s = s"
  by (simp add: consume_Memento_def)

text \<open>
  C9. A Memento message whose plan reference the memento handler knows makes the
  handler produce a PlanMemento, but what the task then sends to the plan database
  is the Memento message itself, under the identifier of the message; the PlanMemento
  is dropped. Here the plan \<open>p1\<close> was started under the plan reference 1, and
  the database holds the plan before the message.
\<close>

theorem memento_sent_unpaired:
  "mh_processMemento (m_mh task_pending) memento_m1
     = Some \<lparr>pmem_id = ''m1'', pmem_plan_id = ''p1'', pmem_maneuver_id = ''A'',
             pmem_memento = ''resume-at-3''\<rparr>
   \<and> m_db (consume_Memento stub_collab memento_m1 task_pending)
       = m_db task_pending @ [(DBDT_MEMENTO, ''m1'', MementoMsg memento_m1)]"
  by (simp add: consume_Memento_def mh_processMemento_def task_pending_fields memento_m1_def
        plan_p1_def stub_collab_def)

section \<open>The timeout of the reply of the vehicle\<close>

lemma emitted_prefix:
  "prefix (bus s) (bus s') \<Longrightarrow> bus s' = bus s @ emitted s s'"
  by (auto simp: prefix_def emitted_def)

lemma wrong_counter_ignored:
  "m_vreq_ctr t = vc_request_id vc + 1 \<Longrightarrow> consume_VehicleCommand X c vc t = t"
  by (simp add: consume_VehicleCommand_def)

lemma onMain_pass_timeout_emitted:
  assumes "pendingReply s" and "m_vc_reply_deadline s \<le> clk_get c"
  shows "bus (onMain_pass X c rd s) = bus s @ emitted s (onMain_pass X c rd s)"
    and "filter is_plan_control (emitted s (onMain_pass X c rd s)) = []"
proof -
  show e: "bus (onMain_pass X c rd s) = bus s @ emitted s (onMain_pass X c rd s)"
    by (rule emitted_prefix) (simp add: onMain_pass_facts(2))
  have "filter is_plan_control (bus s) @ filter is_plan_control (emitted s (onMain_pass X c rd s))
          = filter is_plan_control (bus s)"
    using onMain_pass_timeout(6) [OF assms, where X = X and rd = rd] e by (metis filter_append)
  then show "filter is_plan_control (emitted s (onMain_pass X c rd s)) = []"
    by simp
qed

text \<open>
  C3, as the code has it. When the main loop finds the reply deadline of a pending
  request passed, it clears the deadline, moves the published state to READY and
  dispatches that PlanControlState, empties the queue of requests and increments
  the 16-bit request counter. A late reply that carries the old request identifier
  is then ignored, now and for as long as the counter keeps that value. The pass
  dispatches no PlanControl reply: neither the request that timed out nor the
  requests dropped from the queue are answered.
\<close>

theorem reply_timeout:
  assumes "pendingReply s" and "m_vc_reply_deadline s \<le> clk_get c"
  shows "pcs_state (m_pcs (onMain_pass X c rd s)) = PCS_READY
         \<and> last (bus (onMain_pass X c rd s)) = OutPlanControlState (m_pcs (onMain_pass X c rd s))
         \<and> m_requests (onMain_pass X c rd s) = []
         \<and> m_vreq_ctr (onMain_pass X c rd s) = m_vreq_ctr s + 1
         \<and> m_vreq_ctr (onMain_pass X c rd s) \<noteq> m_vreq_ctr s
         \<and> \<not> pendingReply (onMain_pass X c rd s)
         \<and> (\<forall>t vc c'. m_vreq_ctr t = m_vreq_ctr (onMain_pass X c rd s)
                \<and> vc_request_id vc = m_vreq_ctr s \<longrightarrow> consume_VehicleCommand X c' vc t = t)
         \<and> bus (onMain_pass X c rd s) = bus s @ emitted s (onMain_pass X c rd s)
         \<and> filter is_plan_control (emitted s (onMain_pass X c rd s)) = []"
proof -
  note t = onMain_pass_timeout [OF assms, where X = X and rd = rd]
  note e = onMain_pass_timeout_emitted [OF assms, where X = X and rd = rd]
  have w: "\<forall>t vc c'. m_vreq_ctr t = m_vreq_ctr (onMain_pass X c rd s)
              \<and> vc_request_id vc = m_vreq_ctr s \<longrightarrow> consume_VehicleCommand X c' vc t = t"
    using t(3) by (simp add: wrong_counter_ignored)
  show ?thesis
    using t e w by (simp add: pendingReply_def)
qed

lemma task_pending_timeout:
  "pendingReply task_pending"
  "m_vc_reply_deadline task_pending \<le> clk_get (clock_at 3)"
  by (simp_all add: pendingReply_def task_pending_fields)

theorem reply_timeout_witness:
  "pendingReply task_pending \<and> m_vc_reply_deadline task_pending \<le> clk_get (clock_at 3)
   \<and> pcs_state (m_pcs (onMain_pass stub_collab (clock_at 3) False task_pending)) = PCS_READY
   \<and> m_requests (onMain_pass stub_collab (clock_at 3) False task_pending) = []
   \<and> m_vreq_ctr (onMain_pass stub_collab (clock_at 3) False task_pending) = 2
   \<and> consume_VehicleCommand stub_collab (clock_at 4) (vreply VC_SUCCESS 1)
        (onMain_pass stub_collab (clock_at 3) False task_pending)
       = onMain_pass stub_collab (clock_at 3) False task_pending"
proof -
  note r = reply_timeout [OF task_pending_timeout, where X = stub_collab and rd = False]
  have "vc_request_id (vreply VC_SUCCESS 1) = m_vreq_ctr task_pending"
    by (simp add: vreply_fields task_pending_fields)
  with r have "consume_VehicleCommand stub_collab (clock_at 4) (vreply VC_SUCCESS 1)
        (onMain_pass stub_collab (clock_at 3) False task_pending)
       = onMain_pass stub_collab (clock_at 3) False task_pending"
    by blast
  with r task_pending_timeout show ?thesis
    by (simp add: task_pending_fields)
qed

text \<open>
  The claim as the specification states it fails in its last part: the request 1
  times out at time 3, and the pass of the main loop that handles the timeout
  dispatches no PlanControl message at all.
\<close>

theorem reply_timeout_no_failure_reply_counterexample:
  "pendingReply task_pending \<and> m_vc_reply_deadline task_pending \<le> clk_get (clock_at 3)
   \<and> filter is_plan_control
        (emitted task_pending (onMain_pass stub_collab (clock_at 3) False task_pending)) = []"
  using onMain_pass_timeout_emitted(2) [OF task_pending_timeout, where X = stub_collab and rd = False]
    task_pending_timeout
  by simp

section \<open>The task as a whole\<close>

lemma simple_consume_fields [simp]:
  "bus (consume_EstimatedState es s) = bus s"
  "bus (consume_ManeuverControlState X mcs s) = bus s"
  "m_state (consume_ManeuverControlState X mcs s) = m_state s"
  "bus (consume_PowerOperation X po s) = bus s"
  "m_state (consume_PowerOperation X po s) = m_state s"
  "bus (consume_RegisterManeuver rm s) = bus s"
  "m_state (consume_RegisterManeuver rm s) = m_state s"
  "bus (consume_EntityInfo ei s) = bus s"
  "m_state (consume_EntityInfo ei s) = m_state s"
  "bus (consume_PlanDB X pdb s) = bus s"
  "m_state (consume_PlanDB X pdb s) = m_state s"
  "bus (consume_FuelLevel X fl s) = bus s"
  "m_state (consume_FuelLevel X fl s) = m_state s"
  "bus (consume_Memento X mem s) = bus s"
  "m_state (consume_Memento X mem s) = m_state s"
  by (simp_all add: consume_EstimatedState_def consume_ManeuverControlState_def
        consume_PowerOperation_def consume_RegisterManeuver_def consume_EntityInfo_def
        consume_PlanDB_def consume_FuelLevel_def consume_Memento_def setEntityState_def Let_def
        split: pop_enum.splits prod.splits bool.splits option.splits)

lemma step_prefix: "prefix (bus s) (bus (step X c e s))"
  by (cases e)
    (simp_all add: consume_EntityActivationState_facts consume_VehicleCommand_facts
       consume_VehicleState_facts consume_PlanControl_facts onMain_pass_facts)

lemma step_vrequests: "vrequests (bus (step X c e s)) \<le> vrequests (bus s) + 1"
  using consume_EntityActivationState_facts(3) [of X c _ s] consume_VehicleState_facts(3) [of X c _ s]
    consume_PlanControl_facts(3) [of X c _ s] onMain_pass_facts(3) [of X c _ s]
  by (cases e) (simp_all add: consume_VehicleCommand_facts)

lemma step_pending: "pendingReply s \<Longrightarrow> vrequests (bus (step X c e s)) = vrequests (bus s)"
  by (cases e)
    (simp_all add: consume_EntityActivationState_facts consume_VehicleCommand_facts
       consume_VehicleState_facts consume_PlanControl_facts onMain_pass_facts)

lemma step_m_state: "\<forall>m. e \<noteq> EvEstimatedState m \<Longrightarrow> m_state (step X c e s) = m_state s"
  by (cases e)
    (simp_all add: consume_EntityActivationState_facts consume_VehicleCommand_facts
       consume_VehicleState_facts consume_PlanControl_facts onMain_pass_facts)

lemma vrequests_zero: "vrequests ms = 0 \<longleftrightarrow> (\<forall>m \<in> set ms. \<not> is_vehicle_request m)"
  by (simp add: vrequests_def filter_empty_conv)

section \<open>The queue of requests\<close>

lemma consume_PlanControl_cases:
  "pc_type pc = PC_REQUEST \<Longrightarrow> pendingReply s \<Longrightarrow>
     consume_PlanControl X c pc s = s\<lparr>m_requests := m_requests s @ [pc]\<rparr>"
  "pc_type pc = PC_REQUEST \<Longrightarrow> \<not> pendingReply s \<Longrightarrow> m_requests s = r # rs \<Longrightarrow>
     consume_PlanControl X c pc s
       = (processRequest X c r (s\<lparr>m_requests := r # rs @ [pc]\<rparr>))\<lparr>m_requests := rs @ [pc]\<rparr>"
  "pc_type pc = PC_REQUEST \<Longrightarrow> \<not> pendingReply s \<Longrightarrow> m_requests s = [] \<Longrightarrow>
     consume_PlanControl X c pc s = processRequest X c pc s"
  by (simp_all add: consume_PlanControl_def Let_def)

lemma onMain_requests_cases:
  "\<not> pendingReply s \<Longrightarrow> m_requests s = r # rs \<Longrightarrow>
     onMain_requests X c s = (processRequest X c r s)\<lparr>m_requests := rs\<rparr>"
  "pendingReply s \<Longrightarrow> onMain_requests X c s = s"
  by (simp_all add: onMain_requests_def Let_def)

text \<open>
  C5, as the code has it. A PlanControl request that arrives while a reply of the
  vehicle is pending is appended to the queue and nothing else happens. While a reply
  is pending the main loop takes no request from the queue. Once no reply is pending,
  each pass of the main loop and each arriving request takes exactly one request,
  the one at the front, processes it to the end and removes it; an arriving request
  goes to the back first, and is processed at once only when the queue is empty. What
  a handler dispatches comes after everything dispatched before it, so the replies to
  a request are on the bus before the next request is taken. When the reply deadline
  passes, the queue is emptied: the requests in it are not processed and get no reply.
\<close>

theorem request_queue_fifo:
  "(pc_type pc = PC_REQUEST \<and> pendingReply s \<longrightarrow>
      consume_PlanControl X c pc s = s\<lparr>m_requests := m_requests s @ [pc]\<rparr>)
   \<and> (pendingReply s \<longrightarrow> onMain_requests X c s = s)
   \<and> (\<not> pendingReply s \<and> m_requests s = r # rs \<longrightarrow>
        onMain_requests X c s = (processRequest X c r s)\<lparr>m_requests := rs\<rparr>)
   \<and> (pc_type pc = PC_REQUEST \<and> \<not> pendingReply s \<and> m_requests s = r # rs \<longrightarrow>
        consume_PlanControl X c pc s
          = (processRequest X c r (s\<lparr>m_requests := r # rs @ [pc]\<rparr>))\<lparr>m_requests := rs @ [pc]\<rparr>)
   \<and> (pc_type pc = PC_REQUEST \<and> \<not> pendingReply s \<and> m_requests s = [] \<longrightarrow>
        consume_PlanControl X c pc s = processRequest X c pc s)
   \<and> prefix (bus s) (bus (step X c e s))
   \<and> (pendingReply s \<and> m_vc_reply_deadline s \<le> clk_get c \<longrightarrow>
        m_requests (onMain_pass X c rd s) = []
        \<and> filter is_plan_control (emitted s (onMain_pass X c rd s)) = [])"
  using consume_PlanControl_cases(1) [where pc = pc and s = s and X = X and c = c]
    consume_PlanControl_cases(2) [where pc = pc and s = s and X = X and c = c and r = r and rs = rs]
    consume_PlanControl_cases(3) [where pc = pc and s = s and X = X and c = c]
    onMain_requests_cases(1) [where s = s and X = X and c = c and r = r and rs = rs]
    onMain_requests_cases(2) [where s = s and X = X and c = c]
    step_prefix [of s X c e]
    onMain_pass_timeout(2) [where s = s and X = X and c = c and rd = rd]
    onMain_pass_timeout_emitted(2) [where s = s and X = X and c = c and rd = rd]
  by blast

lemma task_queued_fields:
  "\<not> pendingReply task_queued"
  "m_requests task_queued = [request PC_GET 12 None, request PC_STOP 13 None]"
  by (simp_all add: task_queued_def task_ready_fields pendingReply_def)

theorem request_queue_fifo_witness:
  "pc_type (request PC_LOAD 14 None) = PC_REQUEST \<and> pendingReply task_pending
   \<and> consume_PlanControl stub_collab (clock_at 1) (request PC_LOAD 14 None) task_pending
       = task_pending\<lparr>m_requests := m_requests task_pending @ [request PC_LOAD 14 None]\<rparr>
   \<and> onMain_requests stub_collab (clock_at 1) task_pending = task_pending
   \<and> m_vc_reply_deadline task_pending \<le> clk_get (clock_at 3)
   \<and> m_requests (onMain_pass stub_collab (clock_at 3) False task_pending) = []
   \<and> \<not> pendingReply task_queued
   \<and> m_requests task_queued = [request PC_GET 12 None, request PC_STOP 13 None]
   \<and> onMain_requests stub_collab (clock_at 1) task_queued
       = (processRequest stub_collab (clock_at 1) (request PC_GET 12 None) task_queued)
           \<lparr>m_requests := [request PC_STOP 13 None]\<rparr>
   \<and> consume_PlanControl stub_collab (clock_at 1) (request PC_LOAD 14 None) task_queued
       = (processRequest stub_collab (clock_at 1) (request PC_GET 12 None)
            (task_queued\<lparr>m_requests := [request PC_GET 12 None, request PC_STOP 13 None,
                                           request PC_LOAD 14 None]\<rparr>))
           \<lparr>m_requests := [request PC_STOP 13 None, request PC_LOAD 14 None]\<rparr>
   \<and> \<not> pendingReply task_ready \<and> m_requests task_ready = []
   \<and> consume_PlanControl stub_collab (clock_at 1) (request PC_LOAD 14 None) task_ready
       = processRequest stub_collab (clock_at 1) (request PC_LOAD 14 None) task_ready"
proof -
  note a = request_queue_fifo [where pc = "request PC_LOAD 14 None" and s = task_pending
      and X = stub_collab and c = "clock_at 1" and rd = False]
  note b = request_queue_fifo [where s = task_pending and X = stub_collab and c = "clock_at 3"
      and rd = False]
  note d = request_queue_fifo [where pc = "request PC_LOAD 14 None" and s = task_queued
      and X = stub_collab and c = "clock_at 1" and r = "request PC_GET 12 None"
      and rs = "[request PC_STOP 13 None]"]
  note e = request_queue_fifo [where pc = "request PC_LOAD 14 None" and s = task_ready
      and X = stub_collab and c = "clock_at 1"]
  have h: "pc_type (request PC_LOAD 14 None) = PC_REQUEST" "\<not> pendingReply task_ready"
    "m_requests task_ready = []"
    by (simp_all add: request_fields task_ready_fields pendingReply_def)
  show ?thesis
    using a b d e h task_pending_timeout task_queued_fields by simp
qed

text \<open>
  The claim as the specification states it fails when the vehicle does not reply:
  a PC_GET request arrives at time 1 while the request 1 is in flight and is queued;
  at time 3 the deadline has passed, and the pass of the main loop empties the queue
  without dispatching any PlanControl reply.
\<close>

theorem queued_request_dropped_counterexample:
  "m_requests (consume_PlanControl stub_collab (clock_at 1) (request PC_GET 12 None) task_pending)
     = [request PC_GET 12 None]
   \<and> m_requests (onMain_pass stub_collab (clock_at 3) False
        (consume_PlanControl stub_collab (clock_at 1) (request PC_GET 12 None) task_pending)) = []
   \<and> filter is_plan_control
        (emitted (consume_PlanControl stub_collab (clock_at 1) (request PC_GET 12 None) task_pending)
           (onMain_pass stub_collab (clock_at 3) False
              (consume_PlanControl stub_collab (clock_at 1) (request PC_GET 12 None) task_pending)))
       = []"
proof -
  let ?s1 = "consume_PlanControl stub_collab (clock_at 1) (request PC_GET 12 None) task_pending"
  have s1: "?s1 = task_pending\<lparr>m_requests := m_requests task_pending @ [request PC_GET 12 None]\<rparr>"
    by (rule consume_PlanControl_cases(1)) (simp_all add: request_fields task_pending_timeout)
  have p: "pendingReply ?s1" "m_vc_reply_deadline ?s1 \<le> clk_get (clock_at 3)"
    by (simp_all add: s1 pendingReply_def task_pending_fields)
  show ?thesis
    using onMain_pass_timeout(2) [OF p, where X = stub_collab and rd = False]
      onMain_pass_timeout_emitted(2) [OF p, where X = stub_collab and rd = False]
    by (simp add: s1 task_pending_fields)
qed

section \<open>The navigation state\<close>

text \<open>
  C10. An EstimatedState message of another system leaves the whole task as it was;
  one of the task's own system replaces the stored state. No other message and no
  pass of the main loop changes the stored state, and the station-keeping maneuver
  that fills the calibration takes its position from it.
\<close>

theorem foreign_estimated_state_ignored:
  "(es_source msg \<noteq> system_id s \<longrightarrow> consume_EstimatedState msg s = s)
   \<and> (es_source msg = system_id s \<longrightarrow> m_state (consume_EstimatedState msg s) = msg)
   \<and> ((\<forall>m. e \<noteq> EvEstimatedState m) \<longrightarrow> m_state (step X c e s) = m_state s)
   \<and> (arg_sk_calib (m_args s) \<and> \<not> blockedMode s \<longrightarrow>
        (\<exists>vc m. last (bus (snd (startCalibration X c s))) = OutVehicleCommand vc
           \<and> vc_maneuver vc = Some m
           \<and> sk_lat (man_body m) = fst (toWGS84 X (m_state s))
           \<and> sk_lon (man_body m) = snd (toWGS84 X (m_state s))))"
  using step_m_state [of e X c s]
  by (simp add: consume_EstimatedState_def startCalibration_def vehicleRequest_def dispatch_def
        Let_def split: prod.splits)

theorem foreign_estimated_state_ignored_witness:
  "es_source (es_from 31) \<noteq> system_id task_ready
   \<and> consume_EstimatedState (es_from 31) task_ready = task_ready
   \<and> es_source (es_from 30) = system_id task_ready
   \<and> m_state (consume_EstimatedState (es_from 30) task_ready) = es_from 30
   \<and> m_state (step stub_collab (clock_at 1) (EvPlanControl (request PC_STOP 11 None)) task_ready)
       = m_state task_ready
   \<and> arg_sk_calib (m_args (task_ready\<lparr>m_args := (m_args task_ready)\<lparr>arg_sk_calib := True\<rparr>\<rparr>))
   \<and> \<not> blockedMode (task_ready\<lparr>m_args := (m_args task_ready)\<lparr>arg_sk_calib := True\<rparr>\<rparr>)
   \<and> (\<exists>vc m. last (bus (snd (startCalibration stub_collab (clock_at 1)
                  (task_ready\<lparr>m_args := (m_args task_ready)\<lparr>arg_sk_calib := True\<rparr>\<rparr>))))
                = OutVehicleCommand vc
          \<and> vc_maneuver vc = Some m
          \<and> sk_lat (man_body m) = fst (toWGS84 stub_collab (m_state task_ready))
          \<and> sk_lon (man_body m) = snd (toWGS84 stub_collab (m_state task_ready)))"
proof -
  let ?t = "task_ready\<lparr>m_args := (m_args task_ready)\<lparr>arg_sk_calib := True\<rparr>\<rparr>"
  let ?ev = "EvPlanControl (request PC_STOP 11 None)"
  note a = foreign_estimated_state_ignored [of "es_from 31" task_ready ?ev stub_collab "clock_at 1"]
  note b = foreign_estimated_state_ignored [of "es_from 30" task_ready ?ev stub_collab "clock_at 1"]
  note d = foreign_estimated_state_ignored [of "es_from 30" ?t ?ev stub_collab "clock_at 1"]
  have h: "es_source (es_from 31) \<noteq> system_id task_ready"
    "es_source (es_from 30) = system_id task_ready"
    "arg_sk_calib (m_args ?t)" "\<not> blockedMode ?t"
    by (simp_all add: es_from_def task_ready_fields mode_simps)
  from d h have "\<exists>vc m. last (bus (snd (startCalibration stub_collab (clock_at 1) ?t)))
                = OutVehicleCommand vc
          \<and> vc_maneuver vc = Some m
          \<and> sk_lat (man_body m) = fst (toWGS84 stub_collab (m_state ?t))
          \<and> sk_lon (man_body m) = snd (toWGS84 stub_collab (m_state ?t))"
    by blast
  then have "\<exists>vc m. last (bus (snd (startCalibration stub_collab (clock_at 1) ?t)))
                = OutVehicleCommand vc
          \<and> vc_maneuver vc = Some m
          \<and> sk_lat (man_body m) = fst (toWGS84 stub_collab (m_state task_ready))
          \<and> sk_lon (man_body m) = snd (toWGS84 stub_collab (m_state task_ready))"
    by simp
  with a b h show ?thesis by simp
qed

section \<open>Loading a plan and getting it back\<close>

lemma answer_more [simp]:
  "m_spec (onFailure e s) = m_spec s"
  "m_reply (onFailure e s) = (m_reply s)\<lparr>pc_type := PC_FAILURE, pc_info := e\<rparr>"
  "entity_state (onFailure e s) = entity_state s"
  "entity_id (onFailure e s) = entity_id s"
  "m_spec (onSuccess e s) = m_spec s"
  "m_reply (onSuccess e s) = (m_reply s)\<lparr>pc_type := PC_SUCCESS, pc_info := e\<rparr>"
  "entity_state (onSuccess e s) = entity_state s"
  "entity_id (onSuccess e s) = entity_id s"
  by (simp_all add: onFailure_def onSuccess_def answer_def dispatch_def Let_def)











section \<open>A dispatched vehicle request is pending\<close>

lemma vrequests_mono: "prefix xs ys \<Longrightarrow> vrequests xs \<le> vrequests ys"
  by (auto simp: prefix_def)

lemma deadline_leaf [simp]:
  "m_vc_reply_deadline (startManeuver X c pman s)
     = (if pman = None then m_vc_reply_deadline s else clk_get c + c_vc_reply_timeout)"
  "m_vc_reply_deadline (snd (parsePlan X b s)) = m_vc_reply_deadline s"
  "m_vc_reply_deadline (snd (snd (handleArgSpecification X sp info s))) = m_vc_reply_deadline s"
  "m_vc_reply_deadline (snd (snd (handleArgMemento X pmem info s))) = m_vc_reply_deadline s"
  "m_vc_reply_deadline (snd (snd (handleQuickPlan X ident a info s))) = m_vc_reply_deadline s"
  "m_vc_reply_deadline (getPlan s) = m_vc_reply_deadline s"
  "m_vc_reply_deadline (snd (stopPlan X c b s))
     = (if (initMode s \<or> execMode s) \<and> \<not> b then clk_get c + c_vc_reply_timeout
        else m_vc_reply_deadline s)"
  "m_vc_reply_deadline (snd (startCalibration X c s))
     = (if blockedMode s then m_vc_reply_deadline s else clk_get c + c_vc_reply_timeout)"
  by (simp_all add: startManeuver_def parsePlan_def handleArgSpecification_def handleArgMemento_def
        handleQuickPlan_def getPlan_def stopPlan_def startCalibration_def Let_def
        split: option.splits prod.splits sum.splits message.splits)

lemma parseArg_deadline [simp]:
  "m_vc_reply_deadline (snd (snd (parseArg X ident arg info s))) = m_vc_reply_deadline s"
  by (simp add: parseArg_def Let_def split: prod.splits option.splits message.splits)

lemma loadPlan_deadline [simp]:
  "m_vc_reply_deadline (snd (loadPlan X c pid arg b s)) = m_vc_reply_deadline s"
  by (simp add: loadPlan_def Let_def case_prod_beta bool.case_eq_if)

lemma startPlan_deadline:
  "m_vc_reply_deadline (snd (startPlan X c pid arg flags s))
     = (if vrequests (bus (snd (startPlan X c pid arg flags s))) = vrequests (bus s)
        then m_vc_reply_deadline s else clk_get c + c_vc_reply_timeout)"
proof -
  obtain stopped s0 where sp: "stopPlan X c True s = (stopped, s0)"
    by (cases "stopPlan X c True s")
  define s1 where "s1 = changeMode0 X c PCS_INITIALIZING (''plan initializing: '' @ pid) s0"
  obtain ok s2 where lp: "loadPlan X c pid arg True s1 = (ok, s2)"
    by (cases "loadPlan X c pid arg True s1")
  note s1 = s1_def [symmetric, simplified]
  have v0: "vrequests (bus s0) = vrequests (bus s)" "m_vc_reply_deadline s0 = m_vc_reply_deadline s"
    using stopPlan_fields(1) [of X c True s] deadline_leaf(7) [of X c True s] by (simp_all add: sp)
  have v1: "vrequests (bus s1) = vrequests (bus s)" "m_vc_reply_deadline s1 = m_vc_reply_deadline s"
    by (simp_all add: s1_def v0)
  have v2: "vrequests (bus s2) = vrequests (bus s)" "m_vc_reply_deadline s2 = m_vc_reply_deadline s"
    using loadPlan_fields(1) [of X c pid arg True s1] loadPlan_deadline [of X c pid arg True s1]
    by (simp_all add: lp v1)
  show ?thesis
  proof (cases ok)
    case False
    then have "startPlan X c pid arg flags s = (stopped, s2)"
      by (simp add: startPlan_def sp s1 lp)
    then show ?thesis by (simp add: v2)
  next
    case True
    then show ?thesis
      by (simp add: startPlan_def sp s1 lp Let_def push_cases push_snd push_fst
            push_vrequests push_deadline push_pcs_state mode_simps v2 cong del: if_weak_cong)
  qed
qed

lemma processRequest_deadline:
  "m_vc_reply_deadline (processRequest X c pc s)
     = (if vrequests (bus (processRequest X c pc s)) = vrequests (bus s)
        then m_vc_reply_deadline s else clk_get c + c_vc_reply_timeout)"
proof -
  let ?s1 = "s\<lparr>m_reply := (m_reply s)\<lparr>pc_destination := pc_source pc,
                                       pc_destination_entity := pc_source_entity pc,
                                       pc_request_id := pc_request_id pc,
                                       pc_op := pc_op pc,
                                       pc_plan_id := pc_plan_id pc\<rparr>\<rparr>"
  note sp = startPlan_deadline [of X c "pc_plan_id pc" "pc_arg pc" "pc_flags pc" ?s1, simplified]
  have mono: "vrequests (bus s)
                \<le> vrequests (bus (snd (startPlan X c (pc_plan_id pc) (pc_arg pc) (pc_flags pc) ?s1)))"
    using vrequests_mono [OF startPlan_prefix [of "bus ?s1" ?s1 X c "pc_plan_id pc" "pc_arg pc"
          "pc_flags pc"]]
    by simp
  show ?thesis
  proof (cases "entity_state s = ESTA_NORMAL")
    case False
    then show ?thesis by (simp add: processRequest_def Let_def)
  next
    case True
    show ?thesis
    proof (cases "pc_op pc")
      case PC_START
      with True sp mono show ?thesis
        by (simp add: processRequest_def Let_def push_cases split: if_splits)
    next
      case PC_STOP
      with True show ?thesis by (simp add: processRequest_def Let_def)
    next
      case PC_LOAD
      with True show ?thesis by (simp add: processRequest_def Let_def)
    next
      case PC_GET
      with True show ?thesis by (simp add: processRequest_def Let_def)
    next
      case (PC_OP_OTHER x)
      with True show ?thesis by (simp add: processRequest_def Let_def)
    qed
  qed
qed

lemma onVehicle_deadline:
  "m_vc_reply_deadline (onVehicleService X c vs s)
     = (if vrequests (bus (onVehicleService X c vs s)) = vrequests (bus s)
        then m_vc_reply_deadline s else clk_get c + c_vc_reply_timeout)"
  "m_vc_reply_deadline (onVehicleManeuver X c vs s)
     = (if vrequests (bus (onVehicleManeuver X c vs s)) = vrequests (bus s)
        then m_vc_reply_deadline s else clk_get c + c_vc_reply_timeout)"
  "m_vc_reply_deadline (onVehicleError X c vs s)
     = (if vrequests (bus (onVehicleError X c vs s)) = vrequests (bus s)
        then m_vc_reply_deadline s else clk_get c + c_vc_reply_timeout)"
  by (simp_all add: onVehicleService_def onVehicleManeuver_def onVehicleError_def Let_def push_cases
        split: pcs_state_enum.splits)

lemma consume_VehicleState_deadline:
  "m_vc_reply_deadline (consume_VehicleState X c vs s)
     = (if vrequests (bus (consume_VehicleState X c vs s)) = vrequests (bus s)
        then m_vc_reply_deadline s else clk_get c + c_vc_reply_timeout)"
proof -
  define s2 where "s2 = (case vs_op_mode vs of
                     VS_SERVICE \<Rightarrow> onVehicleService X c vs (s\<lparr>m_last_vstate := clk_get c\<rparr>)
                   | VS_ERROR \<Rightarrow> onVehicleError X c vs (s\<lparr>m_last_vstate := clk_get c\<rparr>)
                   | VS_BOOT \<Rightarrow> onVehicleError X c vs (s\<lparr>m_last_vstate := clk_get c\<rparr>)
                   | VS_MANEUVER \<Rightarrow> onVehicleManeuver X c vs (s\<lparr>m_last_vstate := clk_get c\<rparr>)
                   | _ \<Rightarrow> s\<lparr>m_last_vstate := clk_get c\<rparr>)"
  note sf = switch_facts [where X = X and c = c and vs = vs and s = s, folded s2_def]
  note u = consume_VehicleState_unfold [where X = X and c = c and vs = vs and s = s, folded s2_def]
  have d: "m_vc_reply_deadline s2
             = (if vrequests (bus s2) = vrequests (bus s)
                then m_vc_reply_deadline s else clk_get c + c_vc_reply_timeout)"
    using onVehicle_deadline [of X c vs "s\<lparr>m_last_vstate := clk_get c\<rparr>"]
    by (simp add: s2_def split: vs_op_mode_enum.splits)
  have m: "vrequests (bus s) \<le> vrequests (bus s2)"
    using vrequests_mono [OF sf(2) [where xs = "bus s"]] by simp
  show ?thesis
    using d m by (simp add: u Let_def push_cases push_vrequests push_deadline split: if_splits)
qed

lemma consume_EntityActivationState_deadline:
  "m_vc_reply_deadline (consume_EntityActivationState X c msg s)
     = (if vrequests (bus (consume_EntityActivationState X c msg s)) = vrequests (bus s)
        then m_vc_reply_deadline s else clk_get c + c_vc_reply_timeout)"
  by (simp add: consume_EntityActivationState_def Let_def
        split: option.splits prod.splits bool.splits)

lemma consume_PlanControl_deadline:
  "m_vc_reply_deadline (consume_PlanControl X c pc s)
     = (if vrequests (bus (consume_PlanControl X c pc s)) = vrequests (bus s)
        then m_vc_reply_deadline s else clk_get c + c_vc_reply_timeout)"
proof (cases "m_requests s")
  case Nil
  then show ?thesis
    using processRequest_deadline [of X c pc s] by (simp add: consume_PlanControl_def)
next
  case (Cons front rest)
  then show ?thesis
    using processRequest_deadline [of X c front "s\<lparr>m_requests := m_requests s @ [pc]\<rparr>"]
    by (simp add: consume_PlanControl_def Let_def)
qed

lemma onMain_requests_deadline:
  "m_vc_reply_deadline (onMain_requests X c s)
     = (if vrequests (bus (onMain_requests X c s)) = vrequests (bus s)
        then m_vc_reply_deadline s else clk_get c + c_vc_reply_timeout)"
  by (simp add: onMain_requests_def Let_def processRequest_deadline split: list.splits)

lemma onMain_reply_fresh:
  "m_vc_reply_deadline s = clk_get c + c_vc_reply_timeout \<Longrightarrow> onMain_reply X c s = s"
  by (simp add: onMain_reply_def Let_def c_vc_reply_timeout_def)

lemma onMain_pass_deadline:
  "vrequests (bus (onMain_pass X c rd s)) \<noteq> vrequests (bus s) \<Longrightarrow>
     m_vc_reply_deadline (onMain_pass X c rd s) = clk_get c + c_vc_reply_timeout"
proof -
  let ?t = "onMain_vstate X c (onMain_report X rd s)"
  assume a: "vrequests (bus (onMain_pass X c rd s)) \<noteq> vrequests (bus s)"
  then have "vrequests (bus (onMain_requests X c ?t)) \<noteq> vrequests (bus ?t)"
    by (simp add: onMain_pass_def)
  then have d: "m_vc_reply_deadline (onMain_requests X c ?t) = clk_get c + c_vc_reply_timeout"
    using onMain_requests_deadline [of X c ?t] by simp
  then have "onMain_pass X c rd s = onMain_requests X c ?t"
    by (simp add: onMain_pass_def onMain_reply_fresh)
  with d show ?thesis by simp
qed

lemma step_deadline:
  "vrequests (bus (step X c e s)) \<noteq> vrequests (bus s) \<Longrightarrow>
     m_vc_reply_deadline (step X c e s) = clk_get c + c_vc_reply_timeout"
  using consume_EntityActivationState_deadline [of X c _ s] consume_VehicleState_deadline [of X c _ s]
    consume_PlanControl_deadline [of X c _ s] onMain_pass_deadline [of X c _ s]
  by (cases e) (simp_all add: consume_VehicleCommand_facts)

section \<open>One vehicle request in flight\<close>

lemma vrequests_pos: "vrequests ms \<noteq> 0 \<longleftrightarrow> (\<exists>m \<in> set ms. is_vehicle_request m)"
  by (simp add: vrequests_zero)

text \<open>
  C1. Whatever the state of the task and whatever the handler that runs (a message
  of the bus or a pass of the main loop), the messages the handler dispatches are
  appended to those dispatched before, at most one of them is a vehicle request,
  and none is when a reply of the vehicle is pending at the start of the handler.
  A handler that dispatches a vehicle request ends with the reply deadline 2.5
  seconds after the time of the call, so with that reply pending (the clock is not
  negative). Hence no second request is dispatched before the first is settled by
  its reply or by the timeout.
\<close>

theorem one_vehicle_request_in_flight:
  "bus (step X c e s) = bus s @ emitted s (step X c e s)
   \<and> vrequests (emitted s (step X c e s)) \<le> 1
   \<and> (pendingReply s \<longrightarrow> (\<forall>m \<in> set (emitted s (step X c e s)). \<not> is_vehicle_request m))
   \<and> ((\<exists>m \<in> set (emitted s (step X c e s)). is_vehicle_request m) \<longrightarrow>
        m_vc_reply_deadline (step X c e s) = clk_get c + 5 / 2
        \<and> (0 \<le> clk_get c \<longrightarrow> pendingReply (step X c e s)))"
proof -
  have e: "bus (step X c e s) = bus s @ emitted s (step X c e s)"
    by (rule emitted_prefix) (rule step_prefix)
  have v: "vrequests (bus (step X c e s)) = vrequests (bus s) + vrequests (emitted s (step X c e s))"
    by (subst e) simp
  have a: "vrequests (emitted s (step X c e s)) \<le> 1"
    using step_vrequests [of X c e s] v by simp
  have b: "pendingReply s \<longrightarrow> vrequests (emitted s (step X c e s)) = 0"
    using step_pending [of s X c e] v by simp
  have d: "vrequests (emitted s (step X c e s)) \<noteq> 0 \<longrightarrow>
             m_vc_reply_deadline (step X c e s) = clk_get c + 5 / 2"
    using step_deadline [of X c e s] v by (simp add: c_vc_reply_timeout_def)
  then have "vrequests (emitted s (step X c e s)) \<noteq> 0 \<longrightarrow>
               (0 \<le> clk_get c \<longrightarrow> pendingReply (step X c e s))"
    by (simp add: pendingReply_def)
  with a b d e show ?thesis
    unfolding vrequests_pos [symmetric] by (simp add: vrequests_zero)
qed

lemma stop_while_executing:
  "vrequests (bus (consume_PlanControl stub_collab (clock_at 3) (request PC_STOP 12 None)
                    (task_pending\<lparr>m_vc_reply_deadline := - 1\<rparr>)))
     = vrequests (bus (task_pending\<lparr>m_vc_reply_deadline := - 1\<rparr>)) + 1"
  by (simp add: consume_PlanControl_def processRequest_def pendingReply_def task_pending_fields
        request_fields mode_simps Let_def)

theorem one_vehicle_request_in_flight_witness:
  "pendingReply task_pending
   \<and> vrequests (emitted task_pending
        (step stub_collab (clock_at 1) (EvPlanControl (request PC_STOP 12 None)) task_pending)) = 0
   \<and> vrequests (emitted (task_pending\<lparr>m_vc_reply_deadline := - 1\<rparr>)
        (step stub_collab (clock_at 3) (EvPlanControl (request PC_STOP 12 None))
           (task_pending\<lparr>m_vc_reply_deadline := - 1\<rparr>))) = 1
   \<and> m_vc_reply_deadline (step stub_collab (clock_at 3) (EvPlanControl (request PC_STOP 12 None))
        (task_pending\<lparr>m_vc_reply_deadline := - 1\<rparr>)) = 11 / 2
   \<and> pendingReply (step stub_collab (clock_at 3) (EvPlanControl (request PC_STOP 12 None))
        (task_pending\<lparr>m_vc_reply_deadline := - 1\<rparr>))"
proof -
  let ?t = "task_pending\<lparr>m_vc_reply_deadline := - 1\<rparr>"
  let ?ev = "EvPlanControl (request PC_STOP 12 None)"
  note p = one_vehicle_request_in_flight [of stub_collab "clock_at 1" ?ev task_pending]
  note q = one_vehicle_request_in_flight [of stub_collab "clock_at 3" ?ev ?t]
  have p0: "vrequests (emitted task_pending (step stub_collab (clock_at 1) ?ev task_pending)) = 0"
    using p task_pending_timeout(1) by (simp add: vrequests_zero)
  have "vrequests (bus (step stub_collab (clock_at 3) ?ev ?t))
          = vrequests (bus ?t) + vrequests (emitted ?t (step stub_collab (clock_at 3) ?ev ?t))"
    using q by (metis vrequests_simps(2))
  then have q1: "vrequests (emitted ?t (step stub_collab (clock_at 3) ?ev ?t)) = 1"
    using stop_while_executing by simp
  then have "\<exists>m \<in> set (emitted ?t (step stub_collab (clock_at 3) ?ev ?t)). is_vehicle_request m"
    using vrequests_pos [of "emitted ?t (step stub_collab (clock_at 3) ?ev ?t)"] by simp
  with q have "m_vc_reply_deadline (step stub_collab (clock_at 3) ?ev ?t) = clk_get (clock_at 3) + 5 / 2
      \<and> pendingReply (step stub_collab (clock_at 3) ?ev ?t)"
    by simp
  with p0 q1 task_pending_timeout(1) show ?thesis by simp
qed

section \<open>The time of the last vehicle state\<close>

lemma push_vstate:
  "m_last_vstate (if b then t else u) = (if b then m_last_vstate t else m_last_vstate u)"
  "m_last_vstate (Let e g) = (let x = e in m_last_vstate (g x))"
  "entity_state (if b then t else u) = (if b then entity_state t else entity_state u)"
  "entity_state (Let e g) = (let x = e in entity_state (g x))"
  by (simp_all add: Let_def)

lemma basic_vstate [simp]:
  "m_last_vstate (dispatch m s) = m_last_vstate s"
  "entity_state (dispatch m s) = entity_state s"
  "m_last_vstate (changeLog n s) = m_last_vstate s"
  "entity_state (changeLog n s) = entity_state s"
  "m_last_vstate (answer ty d s) = m_last_vstate s"
  "entity_state (answer ty d s) = entity_state s"
  "m_last_vstate (onFailure d s) = m_last_vstate s"
  "m_last_vstate (onSuccess d s) = m_last_vstate s"
  "m_last_vstate (vehicleRequest X c cmd arg s) = m_last_vstate s"
  "entity_state (vehicleRequest X c cmd arg s) = entity_state s"
  "m_last_vstate (changeMode X c st e nid mm s) = m_last_vstate s"
  "m_last_vstate (changeMode0 X c st e s) = m_last_vstate s"
  by (simp_all add: dispatch_def changeLog_def answer_def onFailure_def onSuccess_def
        vehicleRequest_def changeMode_def changeMode0_def mode_simps Let_def split: option.splits)

lemma startManeuver_vstate [simp]:
  "m_last_vstate (startManeuver X c pman s) = m_last_vstate s"
  "entity_state (startManeuver X c pman s) = entity_state s"
  by (simp_all add: startManeuver_def Let_def split: option.splits)

lemma load_vstate [simp]:
  "m_last_vstate (snd (parsePlan X b s)) = m_last_vstate s"
  "entity_state (snd (parsePlan X b s)) = entity_state s"
  "m_last_vstate (snd (snd (handleArgSpecification X sp info s))) = m_last_vstate s"
  "entity_state (snd (snd (handleArgSpecification X sp info s))) = entity_state s"
  "m_last_vstate (snd (snd (handleArgMemento X pmem info s))) = m_last_vstate s"
  "entity_state (snd (snd (handleArgMemento X pmem info s))) = entity_state s"
  "m_last_vstate (snd (snd (handleQuickPlan X ident a info s))) = m_last_vstate s"
  "entity_state (snd (snd (handleQuickPlan X ident a info s))) = entity_state s"
  "m_last_vstate (getPlan s) = m_last_vstate s"
  "entity_state (getPlan s) = entity_state s"
  "m_last_vstate (snd (stopPlan X c b s)) = m_last_vstate s"
  "entity_state (snd (stopPlan X c b s)) = entity_state s"
  "m_last_vstate (snd (startCalibration X c s)) = m_last_vstate s"
  "entity_state (snd (startCalibration X c s)) = entity_state s"
  by (simp_all add: parsePlan_def handleArgSpecification_def handleArgMemento_def
        handleQuickPlan_def getPlan_def stopPlan_def startCalibration_def Let_def
        split: option.splits prod.splits sum.splits)

lemma parseArg_vstate [simp]:
  "m_last_vstate (snd (snd (parseArg X ident arg info s))) = m_last_vstate s"
  "entity_state (snd (snd (parseArg X ident arg info s))) = entity_state s"
  by (simp_all add: parseArg_def Let_def split: prod.splits option.splits message.splits)

lemma loadPlan_vstate [simp]:
  "m_last_vstate (snd (loadPlan X c pid arg b s)) = m_last_vstate s"
  "entity_state (snd (loadPlan X c pid arg b s)) = entity_state s"
  by (simp_all add: loadPlan_def Let_def case_prod_beta bool.case_eq_if)

lemma startPlan_vstate [simp]:
  "m_last_vstate (snd (startPlan X c pid arg flags s)) = m_last_vstate s"
  "entity_state (snd (startPlan X c pid arg flags s)) = entity_state s"
  by (simp_all add: startPlan_def Let_def push_cases push_snd push_vstate
        cong del: if_weak_cong split del: if_split)

lemma processRequest_vstate [simp]:
  "m_last_vstate (processRequest X c pc s) = m_last_vstate s"
  "entity_state (processRequest X c pc s) = entity_state s"
  by (simp_all add: processRequest_def Let_def push_cases push_vstate split: pc_op_enum.splits)

lemma onVehicle_vstate [simp]:
  "m_last_vstate (onVehicleService X c vs s) = m_last_vstate s"
  "entity_state (onVehicleService X c vs s) = entity_state s"
  "m_last_vstate (onVehicleManeuver X c vs s) = m_last_vstate s"
  "entity_state (onVehicleManeuver X c vs s) = entity_state s"
  "m_last_vstate (onVehicleError X c vs s) = m_last_vstate s"
  "entity_state (onVehicleError X c vs s) = entity_state s"
  by (simp_all add: onVehicleService_def onVehicleManeuver_def onVehicleError_def Let_def push_cases
        push_vstate cong del: if_weak_cong split: pcs_state_enum.splits)

text \<open>
  A VehicleState message consumed outside the entity state BOOT sets the time of the
  last vehicle state to the time of the call; one consumed in BOOT changes nothing.
\<close>

lemma consume_VehicleState_vstate:
  "entity_state s \<noteq> ESTA_BOOT \<Longrightarrow> m_last_vstate (consume_VehicleState X c vs s) = clk_get c"
  "entity_state (consume_VehicleState X c vs s) = entity_state s"
  "entity_state s = ESTA_BOOT \<Longrightarrow> consume_VehicleState X c vs s = s"
proof -
  define s2 where "s2 = (case vs_op_mode vs of
                     VS_SERVICE \<Rightarrow> onVehicleService X c vs (s\<lparr>m_last_vstate := clk_get c\<rparr>)
                   | VS_ERROR \<Rightarrow> onVehicleError X c vs (s\<lparr>m_last_vstate := clk_get c\<rparr>)
                   | VS_BOOT \<Rightarrow> onVehicleError X c vs (s\<lparr>m_last_vstate := clk_get c\<rparr>)
                   | VS_MANEUVER \<Rightarrow> onVehicleManeuver X c vs (s\<lparr>m_last_vstate := clk_get c\<rparr>)
                   | _ \<Rightarrow> s\<lparr>m_last_vstate := clk_get c\<rparr>)"
  note u = consume_VehicleState_unfold [where X = X and c = c and vs = vs and s = s, folded s2_def]
  have f: "m_last_vstate s2 = clk_get c" "entity_state s2 = entity_state s"
    by (simp_all add: s2_def split: vs_op_mode_enum.splits)
  show "entity_state s \<noteq> ESTA_BOOT \<Longrightarrow> m_last_vstate (consume_VehicleState X c vs s) = clk_get c"
    using f by (simp add: u Let_def push_cases push_vstate cong del: if_weak_cong)
  show "entity_state (consume_VehicleState X c vs s) = entity_state s"
    using f by (simp add: u Let_def push_cases push_vstate cong del: if_weak_cong)
  show "entity_state s = ESTA_BOOT \<Longrightarrow> consume_VehicleState X c vs s = s"
    by (simp add: consume_VehicleState_def)
qed

lemma consume_vstate [simp]:
  "m_last_vstate (consume_EstimatedState es s) = m_last_vstate s"
  "m_last_vstate (consume_ManeuverControlState X mcs s) = m_last_vstate s"
  "m_last_vstate (consume_PowerOperation X po s) = m_last_vstate s"
  "m_last_vstate (consume_RegisterManeuver rm s) = m_last_vstate s"
  "m_last_vstate (consume_EntityInfo ei s) = m_last_vstate s"
  "m_last_vstate (consume_PlanDB X pdb s) = m_last_vstate s"
  "m_last_vstate (consume_FuelLevel X fl s) = m_last_vstate s"
  "m_last_vstate (consume_Memento X mem s) = m_last_vstate s"
  "m_last_vstate (consume_VehicleCommand X c vc s) = m_last_vstate s"
  "m_last_vstate (consume_PlanControl X c pc s) = m_last_vstate s"
  "entity_state (consume_EstimatedState es s) = entity_state s"
  "entity_state (consume_ManeuverControlState X mcs s) = entity_state s"
  "entity_state (consume_RegisterManeuver rm s) = entity_state s"
  "entity_state (consume_EntityInfo ei s) = entity_state s"
  "entity_state (consume_FuelLevel X fl s) = entity_state s"
  "entity_state (consume_Memento X mem s) = entity_state s"
  "entity_state (consume_VehicleCommand X c vc s) = entity_state s"
  "entity_state (consume_PlanControl X c pc s) = entity_state s"
  by (simp_all add: consume_EstimatedState_def consume_ManeuverControlState_def
        consume_PowerOperation_def consume_RegisterManeuver_def consume_EntityInfo_def
        consume_PlanDB_def consume_FuelLevel_def consume_Memento_def consume_VehicleCommand_def
        consume_PlanControl_def setEntityState_def Let_def
        split: pop_enum.splits prod.splits bool.splits option.splits list.splits)

lemma consume_EntityActivationState_vstate [simp]:
  "m_last_vstate (consume_EntityActivationState X c msg s) = m_last_vstate s"
  by (simp add: consume_EntityActivationState_def Let_def push_cases push_vstate
        cong del: if_weak_cong)

lemma onMain_vstate_frame [simp]:
  "m_last_vstate (reportProgress X s) = m_last_vstate s"
  "entity_state (reportProgress X s) = entity_state s"
  "m_last_vstate (onMain_report X rd s) = m_last_vstate s"
  "entity_state (onMain_report X rd s) = entity_state s"
  "m_last_vstate (onMain_requests X c s) = m_last_vstate s"
  "m_last_vstate (onMain_reply X c s) = m_last_vstate s"
  by (simp_all add: reportProgress_def onMain_report_def onMain_requests_def onMain_reply_def
        Let_def split: prod.splits list.splits)

lemma onMain_vstate_cases:
  "entity_state s = ESTA_NORMAL \<Longrightarrow> to_double X (clk_get c - m_last_vstate s) \<ge> 5 / 2 \<Longrightarrow>
     pcs_state (m_pcs (onMain_vstate X c s)) = PCS_BLOCKED"
  "entity_state s = ESTA_NORMAL \<Longrightarrow> to_double X (clk_get c - m_last_vstate s) \<ge> 5 / 2 \<Longrightarrow>
     m_last_vstate (onMain_vstate X c s) = clk_get c"
  "entity_state s = ESTA_NORMAL \<Longrightarrow> to_double X (clk_get c - m_last_vstate s) \<ge> 5 / 2 \<Longrightarrow>
     last (bus (onMain_vstate X c s)) = OutPlanControlState (m_pcs (onMain_vstate X c s))"
  "to_double X (clk_get c - m_last_vstate s) < 5 / 2 \<Longrightarrow> onMain_vstate X c s = s"
  "entity_state s \<noteq> ESTA_NORMAL \<Longrightarrow> onMain_vstate X c s = s"
  by (simp_all add: onMain_vstate_def Let_def c_vs_timeout_def)

lemma onMain_pass_vstate:
  "m_last_vstate (onMain_pass X c rd s)
     = (if entity_state s = ESTA_NORMAL \<and> to_double X (clk_get c - m_last_vstate s) \<ge> 5 / 2
        then clk_get c else m_last_vstate s)"
  by (simp add: onMain_pass_def onMain_vstate_def Let_def c_vs_timeout_def)

lemma step_vstate:
  "\<forall>vs. e \<noteq> EvVehicleState vs \<Longrightarrow> \<forall>rd. e \<noteq> EvMainPass rd \<Longrightarrow>
     m_last_vstate (step X c e s) = m_last_vstate s"
  by (cases e) auto

lemma onMain_entity_state [simp]:
  "entity_state (onMain_vstate X c s) = entity_state s"
  "entity_state (onMain_requests X c s) = entity_state s"
  "entity_state (onMain_reply X c s) = entity_state s"
  "entity_state (onMain_pass X c rd s) = entity_state s"
  by (simp_all add: onMain_vstate_def onMain_requests_def onMain_reply_def onMain_pass_def
        Let_def split: list.splits)

lemma consume_VehicleState_ready:
  "entity_state s \<noteq> ESTA_BOOT \<Longrightarrow> pcs_state (m_pcs s) = PCS_READY \<Longrightarrow>
     vs_op_mode vs = VS_SERVICE \<Longrightarrow>
       consume_VehicleState X c vs s = s\<lparr>m_last_vstate := clk_get c\<rparr>"
  by (simp add: consume_VehicleState_def onVehicleService_def mode_simps)

text \<open>
  The time of the last vehicle state stays what a VehicleState message made it, through
  every sequence of events that holds no further VehicleState message and no pass of
  the main loop that is late by the timeout.
\<close>

lemma run_vstate:
  "\<forall>(c', e) \<in> set evs. (\<forall>m. e \<noteq> EvVehicleState m)
       \<and> (\<forall>rd. e = EvMainPass rd \<longrightarrow> to_double X (clk_get c' - m_last_vstate s) < 5 / 2) \<Longrightarrow>
     m_last_vstate (run X evs s) = m_last_vstate s"
proof (induction evs arbitrary: s)
  case Nil
  show ?case by simp
next
  case (Cons ce evs)
  obtain c' e where ce: "ce = (c', e)" by (cases ce)
  have nv: "\<forall>m. e \<noteq> EvVehicleState m"
    and mp: "\<forall>rd. e = EvMainPass rd \<longrightarrow> to_double X (clk_get c' - m_last_vstate s) < 5 / 2"
    using Cons.prems ce by auto
  have st: "m_last_vstate (step X c' e s) = m_last_vstate s"
  proof (cases "\<exists>rd. e = EvMainPass rd")
    case True
    then obtain rd where e: "e = EvMainPass rd" ..
    with mp have "to_double X (clk_get c' - m_last_vstate s) < 5 / 2" by simp
    then show ?thesis by (simp add: e onMain_pass_vstate)
  next
    case False
    with nv show ?thesis by (simp add: step_vstate)
  qed
  have "m_last_vstate (run X evs (step X c' e s)) = m_last_vstate (step X c' e s)"
    using Cons.prems ce st by (intro Cons.IH) auto
  with st show ?case by (simp add: ce)
qed

text \<open>
  C6, as the code has it. The engine measures the interval from the time it keeps in
  \<open>m_last_vstate\<close>. The start of the main loop sets that time; a VehicleState message
  consumed while the entity state is BOOT changes nothing, and one consumed in any
  other entity state sets it to the time of the consumption. From such a message at
  the time \<open>clk_get c0\<close>, and through events that hold no further VehicleState message
  and no pass of the main loop that is late by the timeout, the time kept is that of
  the message. Then the check of the main loop at the time \<open>clk_get c\<close>, with the
  entity state normal, moves the published state to BLOCKED, dispatches it and restarts
  the interval as soon as the interval since the message, subtracted in double
  precision, is 2.5 seconds or more, the interval of exactly 2.5 seconds included.
  While the interval is shorter than 2.5 seconds, or the entity state is not normal,
  the check changes nothing.
\<close>

theorem vstate_timeout_inclusive:
  "m_last_vstate (setInitialState c0 s) = clk_get c0
   \<and> (entity_state s = ESTA_BOOT \<longrightarrow> consume_VehicleState X c0 vs s = s)
   \<and> (entity_state s \<noteq> ESTA_BOOT
        \<and> (\<forall>(c', e) \<in> set evs. (\<forall>m. e \<noteq> EvVehicleState m)
              \<and> (\<forall>rd. e = EvMainPass rd \<longrightarrow> to_double X (clk_get c' - clk_get c0) < 5 / 2)) \<longrightarrow>
      (let t = run X evs (consume_VehicleState X c0 vs s)
       in m_last_vstate t = clk_get c0
          \<and> (entity_state t = ESTA_NORMAL \<and> to_double X (clk_get c - clk_get c0) \<ge> 5 / 2 \<longrightarrow>
               pcs_state (m_pcs (onMain_vstate X c t)) = PCS_BLOCKED
               \<and> last (bus (onMain_vstate X c t)) = OutPlanControlState (m_pcs (onMain_vstate X c t))
               \<and> m_last_vstate (onMain_vstate X c t) = clk_get c)
          \<and> (to_double X (clk_get c - clk_get c0) < 5 / 2 \<or> entity_state t \<noteq> ESTA_NORMAL \<longrightarrow>
               onMain_vstate X c t = t)))"
proof (intro conjI impI)
  show "m_last_vstate (setInitialState c0 s) = clk_get c0"
    by (simp add: setInitialState_fields)
next
  assume "entity_state s = ESTA_BOOT"
  then show "consume_VehicleState X c0 vs s = s"
    by (rule consume_VehicleState_vstate(3))
next
  assume a: "entity_state s \<noteq> ESTA_BOOT
        \<and> (\<forall>(c', e) \<in> set evs. (\<forall>m. e \<noteq> EvVehicleState m)
              \<and> (\<forall>rd. e = EvMainPass rd \<longrightarrow> to_double X (clk_get c' - clk_get c0) < 5 / 2))"
  define s1 where "s1 = consume_VehicleState X c0 vs s"
  define t where "t = run X evs s1"
  have s1: "m_last_vstate s1 = clk_get c0"
    using a by (simp add: s1_def consume_VehicleState_vstate(1))
  have t: "m_last_vstate t = clk_get c0"
    unfolding t_def using a run_vstate [where evs = evs and X = X and s = s1] by (simp add: s1)
  have "(entity_state t = ESTA_NORMAL \<and> to_double X (clk_get c - clk_get c0) \<ge> 5 / 2 \<longrightarrow>
               pcs_state (m_pcs (onMain_vstate X c t)) = PCS_BLOCKED
               \<and> last (bus (onMain_vstate X c t)) = OutPlanControlState (m_pcs (onMain_vstate X c t))
               \<and> m_last_vstate (onMain_vstate X c t) = clk_get c)"
    using onMain_vstate_cases(1,2,3) [where s = t and c = c and X = X] by (simp add: t)
  moreover have "(to_double X (clk_get c - clk_get c0) < 5 / 2 \<or> entity_state t \<noteq> ESTA_NORMAL \<longrightarrow>
               onMain_vstate X c t = t)"
    using onMain_vstate_cases(4,5) [where s = t and c = c and X = X] by (auto simp add: t)
  ultimately show "(let t = run X evs (consume_VehicleState X c0 vs s)
       in m_last_vstate t = clk_get c0
          \<and> (entity_state t = ESTA_NORMAL \<and> to_double X (clk_get c - clk_get c0) \<ge> 5 / 2 \<longrightarrow>
               pcs_state (m_pcs (onMain_vstate X c t)) = PCS_BLOCKED
               \<and> last (bus (onMain_vstate X c t)) = OutPlanControlState (m_pcs (onMain_vstate X c t))
               \<and> m_last_vstate (onMain_vstate X c t) = clk_get c)
          \<and> (to_double X (clk_get c - clk_get c0) < 5 / 2 \<or> entity_state t \<noteq> ESTA_NORMAL \<longrightarrow>
               onMain_vstate X c t = t))"
    using t unfolding Let_def t_def s1_def by blast
qed

text \<open>A late pass of the main loop, with no request queued and no reply pending.\<close>

lemma onMain_pass_blocked:
  assumes "entity_state s = ESTA_NORMAL" and "to_double X (clk_get c - m_last_vstate s) \<ge> 5 / 2"
    and "m_requests s = []" and "m_vc_reply_deadline s < 0"
  shows "pcs_state (m_pcs (onMain_pass X c rd s)) = PCS_BLOCKED"
proof -
  define v where "v = onMain_vstate X c (onMain_report X rd s)"
  have b: "pcs_state (m_pcs v) = PCS_BLOCKED"
    unfolding v_def using assms by (intro onMain_vstate_cases(1)) simp_all
  have r: "m_requests v = []" and d: "m_vc_reply_deadline v < 0"
    using assms by (simp_all add: v_def)
  have "onMain_requests X c v = v"
    using r by (simp add: onMain_requests_def)
  moreover have "onMain_reply X c v = v"
    using d by (simp add: onMain_reply_def)
  ultimately show ?thesis
    using b by (simp add: onMain_pass_def v_def [symmetric])
qed

theorem vstate_timeout_inclusive_witness:
  "entity_state task_ready = ESTA_NORMAL
   \<and> m_last_vstate
        (run stub_collab [(clock_at 2, EvEstimatedState (es_from 1)), (clock_at 3, EvMainPass False)]
           (consume_VehicleState stub_collab (clock_at 1) vstate_service task_ready)) = 1
   \<and> pcs_state (m_pcs (onMain_vstate stub_collab (clock_at 4)
        (run stub_collab [(clock_at 2, EvEstimatedState (es_from 1)), (clock_at 3, EvMainPass False)]
           (consume_VehicleState stub_collab (clock_at 1) vstate_service task_ready)))) = PCS_BLOCKED
   \<and> m_last_vstate (onMain_vstate stub_collab (clock_at 4)
        (run stub_collab [(clock_at 2, EvEstimatedState (es_from 1)), (clock_at 3, EvMainPass False)]
           (consume_VehicleState stub_collab (clock_at 1) vstate_service task_ready))) = 4
   \<and> onMain_vstate stub_collab (clock_at (13 / 4))
        (run stub_collab [(clock_at 2, EvEstimatedState (es_from 1)), (clock_at 3, EvMainPass False)]
           (consume_VehicleState stub_collab (clock_at 1) vstate_service task_ready))
       = run stub_collab [(clock_at 2, EvEstimatedState (es_from 1)), (clock_at 3, EvMainPass False)]
           (consume_VehicleState stub_collab (clock_at 1) vstate_service task_ready)
   \<and> consume_VehicleState stub_collab (clock_at 1) vstate_service
        (task_ready\<lparr>entity_state := ESTA_BOOT\<rparr>) = task_ready\<lparr>entity_state := ESTA_BOOT\<rparr>"
proof -
  define evs where "evs = [(clock_at 2, EvEstimatedState (es_from 1)), (clock_at 3, EvMainPass False)]"
  define t where "t = run stub_collab evs
                        (consume_VehicleState stub_collab (clock_at 1) vstate_service task_ready)"
  have a: "entity_state task_ready = ESTA_NORMAL" "entity_state task_ready \<noteq> ESTA_BOOT"
    by (simp_all add: task_ready_fields)
  have q: "\<forall>(c', e) \<in> set evs. (\<forall>m. e \<noteq> EvVehicleState m)
              \<and> (\<forall>rd. e = EvMainPass rd \<longrightarrow>
                    to_double stub_collab (clk_get c' - clk_get (clock_at 1)) < 5 / 2)"
    by (simp add: evs_def stub_collab_def)
  have n: "entity_state t = ESTA_NORMAL"
    by (simp add: t_def evs_def consume_VehicleState_vstate(2) a)
  have r: "to_double stub_collab (clk_get (clock_at 4) - clk_get (clock_at 1)) \<ge> 5 / 2"
    "to_double stub_collab (clk_get (clock_at (13 / 4)) - clk_get (clock_at 1)) < 5 / 2"
    by (simp_all add: stub_collab_def)
  have b: "entity_state (task_ready\<lparr>entity_state := ESTA_BOOT\<rparr>) = ESTA_BOOT"
    by simp
  have "m_last_vstate t = 1
     \<and> pcs_state (m_pcs (onMain_vstate stub_collab (clock_at 4) t)) = PCS_BLOCKED
     \<and> m_last_vstate (onMain_vstate stub_collab (clock_at 4) t) = 4
     \<and> onMain_vstate stub_collab (clock_at (13 / 4)) t = t"
    using vstate_timeout_inclusive [where s = task_ready and ?c0.0 = "clock_at 1"
        and vs = vstate_service and X = stub_collab and evs = evs and c = "clock_at 4"]
      vstate_timeout_inclusive [where s = task_ready and ?c0.0 = "clock_at 1"
        and vs = vstate_service and X = stub_collab and evs = evs and c = "clock_at (13 / 4)"]
      a q n r
    unfolding Let_def t_def [symmetric] by simp
  moreover have "consume_VehicleState stub_collab (clock_at 1) vstate_service
        (task_ready\<lparr>entity_state := ESTA_BOOT\<rparr>) = task_ready\<lparr>entity_state := ESTA_BOOT\<rparr>"
    using vstate_timeout_inclusive [where s = "task_ready\<lparr>entity_state := ESTA_BOOT\<rparr>"
        and ?c0.0 = "clock_at 1" and vs = vstate_service and X = stub_collab and evs = "[]"
        and c = "clock_at 4"] b
    by blast
  ultimately show ?thesis
    using a(1) unfolding t_def evs_def by blast
qed

text \<open>
  The claim as the specification states it fails at the boundary. The task is READY and
  receives a VehicleState message at time 1, which leaves it READY; the main loop runs
  next at time 3.5, exactly 2.5 seconds after the message, and the published state
  goes to BLOCKED, in the check alone and in the whole pass of the loop.
\<close>

theorem vstate_timeout_boundary_counterexample:
  "pcs_state (m_pcs (consume_VehicleState stub_collab (clock_at 1) vstate_service task_ready))
     = PCS_READY
   \<and> m_last_vstate (consume_VehicleState stub_collab (clock_at 1) vstate_service task_ready) = 1
   \<and> clk_get (clock_at (7 / 2)) - clk_get (clock_at 1) = 5 / 2
   \<and> to_double stub_collab (clk_get (clock_at (7 / 2)) - clk_get (clock_at 1)) = 5 / 2
   \<and> pcs_state (m_pcs (onMain_vstate stub_collab (clock_at (7 / 2))
        (consume_VehicleState stub_collab (clock_at 1) vstate_service task_ready))) = PCS_BLOCKED
   \<and> pcs_state (m_pcs (run stub_collab
        [(clock_at 1, EvVehicleState vstate_service), (clock_at (7 / 2), EvMainPass False)]
        task_ready)) = PCS_BLOCKED"
proof -
  define s1 where "s1 = consume_VehicleState stub_collab (clock_at 1) vstate_service task_ready"
  have s1: "s1 = task_ready\<lparr>m_last_vstate := 1\<rparr>"
    unfolding s1_def
    using consume_VehicleState_ready [where s = task_ready and vs = vstate_service
        and X = stub_collab and c = "clock_at 1"]
    by (simp add: task_ready_fields vstate_service_def)
  have f: "pcs_state (m_pcs s1) = PCS_READY" "m_last_vstate s1 = 1"
    "entity_state s1 = ESTA_NORMAL" "m_requests s1 = []" "m_vc_reply_deadline s1 < 0"
    by (simp_all add: s1 task_ready_fields)
  have r: "to_double stub_collab (clk_get (clock_at (7 / 2)) - m_last_vstate s1) \<ge> 5 / 2"
    by (simp add: f stub_collab_def)
  have "pcs_state (m_pcs (onMain_vstate stub_collab (clock_at (7 / 2)) s1)) = PCS_BLOCKED"
    using f(3) r by (rule onMain_vstate_cases(1))
  moreover have "pcs_state (m_pcs (onMain_pass stub_collab (clock_at (7 / 2)) False s1)) = PCS_BLOCKED"
    using f(3) r f(4,5) by (rule onMain_pass_blocked)
  moreover have "to_double stub_collab (clk_get (clock_at (7 / 2)) - clk_get (clock_at 1)) = 5 / 2"
    by (simp add: stub_collab_def)
  ultimately show ?thesis
    using f(1,2) by (simp add: s1_def)
qed


end
